theory Spec2Isabelle
  imports Complex_Main
begin

section \<open>Python values\<close>

text \<open>
  Both scripts work on untyped JSON payloads: what the Garmin client returns and what
  \<^verbatim>\<open>json.loads\<close> makes of a request body. A value is \<^verbatim>\<open>None\<close>, a bool, an int
  (unbounded), a float, a string, a list or a dict with string keys. A dict is an
  association list, looked up with \<open>map_of\<close>.

  A float is represented by the rational number it denotes: the arithmetic below
  (\<^verbatim>\<open>/\<close>, \<^verbatim>\<open>round\<close>, \<^verbatim>\<open>int\<close>) is exact, the rounding of binary64 operations and
  the values \<^verbatim>\<open>inf\<close> and \<^verbatim>\<open>nan\<close> are outside the model. Strings are byte strings;
  the case functions below know the ASCII letters only.
\<close>

datatype pyval =
    PNone
  | PBool bool
  | PInt int
  | PFloat rat
  | PStr string
  | PList "pyval list"
  | PDict "(string \<times> pyval) list"

text \<open>
  Every handler in the two scripts is \<^verbatim>\<open>except Exception\<close>, so the class of an exception
  never decides a branch; it is kept for reading. \<open>ExternalError\<close> is an exception raised
  by a collaborator (the Garmin client, the speech engine), with its message.
\<close>

datatype py_error =
    TypeError
  | ValueError
  | AttributeError
  | OverflowError
  | ZeroDivisionError
  | ExternalError string

type_synonym 'a result = "py_error + 'a"

text \<open>\<^verbatim>\<open>bool(v)\<close>, the test of \<^verbatim>\<open>if v:\<close>.\<close>

fun truthy :: "pyval \<Rightarrow> bool" where
  "truthy PNone = False"
| "truthy (PBool b) = b"
| "truthy (PInt i) = (i \<noteq> 0)"
| "truthy (PFloat x) = (x \<noteq> 0)"
| "truthy (PStr s) = (s \<noteq> [])"
| "truthy (PList xs) = (xs \<noteq> [])"
| "truthy (PDict kvs) = (kvs \<noteq> [])"

text \<open>\<^verbatim>\<open>v.get(k, d)\<close>: only a dict has the method.\<close>

fun py_get :: "pyval \<Rightarrow> string \<Rightarrow> pyval \<Rightarrow> pyval result" where
  "py_get (PDict kvs) k d = Inr (case map_of kvs k of None \<Rightarrow> d | Some v \<Rightarrow> v)"
| "py_get _ k d = Inl AttributeError"

text \<open>Sequencing of calls that may raise: the first exception ends the block.\<close>

definition bind_res :: "'a result \<Rightarrow> ('a \<Rightarrow> 'b result) \<Rightarrow> 'b result" where
  "bind_res r f = (case r of Inl e \<Rightarrow> Inl e | Inr x \<Rightarrow> f x)"

section \<open>GarminSync: the client\<close>

text \<open>
  A calendar day is a day number; \<^verbatim>\<open>datetime.now() - timedelta(days=i)\<close> is
  \<open>today - int i\<close>, and the \<^verbatim>\<open>%Y-%m-%d\<close> rendering of a day is not modelled.
  The Garmin client is the family of its answers, one per call and date; \<open>Inl\<close> is
  a raised exception.
\<close>

type_synonym day = int

record client =
  get_activities_by_date :: "day \<Rightarrow> day \<Rightarrow> pyval result"
  client_get_sleep_data :: "day \<Rightarrow> pyval result"
  client_get_hrv_data :: "day \<Rightarrow> pyval result"
  get_user_summary :: "day \<Rightarrow> pyval result"
  get_morning_training_readiness :: "day \<Rightarrow> pyval result"
  get_full_name :: "pyval result"

section \<open>GarminSync: sleep\<close>

record sleep_entry =
  se_date :: day
  se_raw :: pyval

text \<open>
  The body of the loop of \<^verbatim>\<open>get_sleep_data\<close> for day offset \<open>i\<close>: the \<^verbatim>\<open>try\<close> block, then
  \<^verbatim>\<open>except Exception: pass\<close>, which leaves the list as it was.
\<close>

definition sleep_try :: "client \<Rightarrow> day \<Rightarrow> sleep_entry list \<Rightarrow> sleep_entry list result" where
  "sleep_try c target_date sleep_records =
     bind_res (client_get_sleep_data c target_date) (\<lambda>sleep_data.
       if truthy sleep_data then
         bind_res (py_get sleep_data ''dailySleepDTO'' (PDict [])) (\<lambda>daily_sleep.
         bind_res (py_get daily_sleep ''sleepTimeSeconds'' PNone) (\<lambda>s.
           if truthy s
           then Inr (sleep_records @ [\<lparr>se_date = target_date, se_raw = sleep_data\<rparr>])
           else Inr sleep_records))
       else Inr sleep_records)"

definition sleep_body :: "client \<Rightarrow> day \<Rightarrow> nat \<Rightarrow> sleep_entry list \<Rightarrow> sleep_entry list" where
  "sleep_body c today i sleep_records =
     (case sleep_try c (today - int i) sleep_records of
        Inl e \<Rightarrow> sleep_records
      | Inr rs \<Rightarrow> rs)"

fun sleep_loop :: "client \<Rightarrow> day \<Rightarrow> nat list \<Rightarrow> sleep_entry list \<Rightarrow> sleep_entry list" where
  "sleep_loop c today [] sleep_records = sleep_records"
| "sleep_loop c today (i # is) sleep_records =
     sleep_loop c today is (sleep_body c today i sleep_records)"

text \<open>\<^verbatim>\<open>range(0, days)\<close> is empty when \<open>days \<le> 0\<close>.\<close>

definition py_range :: "int \<Rightarrow> nat list" where
  "py_range days = [0..<nat days]"

definition get_sleep_data :: "client \<Rightarrow> day \<Rightarrow> int \<Rightarrow> sleep_entry list" where
  "get_sleep_data c today days = sleep_loop c today (py_range days) []"

record sleep_summary =
  sleep_date :: day
  sleepTimeSeconds :: pyval
  deepSleepSeconds :: pyval
  lightSleepSeconds :: pyval
  remSleepSeconds :: pyval
  awakeSleepSeconds :: pyval
  sleepStartTimestampLocal :: pyval
  sleepEndTimestampLocal :: pyval

text \<open>
  \<^verbatim>\<open>format_sleep\<close>: \<open>Inr None\<close> is the returned \<^verbatim>\<open>None\<close>. An entry is the dict
  \<^verbatim>\<open>{'date': .., 'raw': ..}\<close> built by \<^verbatim>\<open>get_sleep_data\<close>, so both keys are there.
\<close>

definition sleep_fields :: "day \<Rightarrow> pyval \<Rightarrow> sleep_summary result" where
  "sleep_fields d daily_sleep =
     bind_res (py_get daily_sleep ''sleepTimeSeconds'' PNone) (\<lambda>f1.
     bind_res (py_get daily_sleep ''deepSleepSeconds'' PNone) (\<lambda>f2.
     bind_res (py_get daily_sleep ''lightSleepSeconds'' PNone) (\<lambda>f3.
     bind_res (py_get daily_sleep ''remSleepSeconds'' PNone) (\<lambda>f4.
     bind_res (py_get daily_sleep ''awakeSleepSeconds'' PNone) (\<lambda>f5.
     bind_res (py_get daily_sleep ''sleepStartTimestampLocal'' PNone) (\<lambda>f6.
     bind_res (py_get daily_sleep ''sleepEndTimestampLocal'' PNone) (\<lambda>f7.
       Inr \<lparr>sleep_date = d, sleepTimeSeconds = f1, deepSleepSeconds = f2,
            lightSleepSeconds = f3, remSleepSeconds = f4, awakeSleepSeconds = f5,
            sleepStartTimestampLocal = f6, sleepEndTimestampLocal = f7\<rparr>)))))))"

definition format_sleep :: "sleep_entry list \<Rightarrow> sleep_summary option result" where
  "format_sleep sleep_records =
     (case sleep_records of
        [] \<Rightarrow> Inr None
      | r # _ \<Rightarrow>
          (let latest = se_raw r in
           bind_res (py_get latest ''dailySleepDTO'' latest) (\<lambda>daily_sleep.
           bind_res (sleep_fields (se_date r) daily_sleep) (\<lambda>s. Inr (Some s)))))"

text \<open>
  The words of the specification for a day that is kept: the call returns, and the
  response has a truthy \<^verbatim>\<open>dailySleepDTO.sleepTimeSeconds\<close>.
\<close>

fun sleep_time_of :: "pyval \<Rightarrow> pyval option" where
  "sleep_time_of (PDict kvs) =
     (case map_of kvs ''dailySleepDTO'' of
        Some (PDict ds) \<Rightarrow> map_of ds ''sleepTimeSeconds''
      | _ \<Rightarrow> None)"
| "sleep_time_of _ = None"

definition has_sleep :: "client \<Rightarrow> day \<Rightarrow> nat \<Rightarrow> bool" where
  "has_sleep c today i =
     (case client_get_sleep_data c (today - int i) of
        Inl e \<Rightarrow> False
      | Inr v \<Rightarrow> (case sleep_time_of v of None \<Rightarrow> False | Some s \<Rightarrow> truthy s))"

definition sleep_entry_at :: "client \<Rightarrow> day \<Rightarrow> nat \<Rightarrow> sleep_entry" where
  "sleep_entry_at c today i =
     \<lparr>se_date = today - int i,
      se_raw = (case client_get_sleep_data c (today - int i) of Inr v \<Rightarrow> v | Inl e \<Rightarrow> PNone)\<rparr>"


section \<open>Numbers and strings of Python\<close>

text \<open>
  An int converts to a float only inside the binary64 range: from \<open>2^1024 - 2^970\<close> on
  (the first magnitude that rounds to \<open>2^1024\<close>) the conversion raises
  \<^verbatim>\<open>OverflowError\<close>. Inside the range the value is kept exactly (see above).
\<close>

definition dbl_fits :: "rat \<Rightarrow> bool" where
  "dbl_fits x = (\<bar>x\<bar> < 2 ^ 1024 - 2 ^ 970)"

definition int_to_float :: "int \<Rightarrow> rat result" where
  "int_to_float i = (if dbl_fits (of_int i) then Inr (of_int i) else Inl OverflowError)"

text \<open>\<^verbatim>\<open>int(x)\<close> of a float: truncation towards zero.\<close>

definition trunc :: "rat \<Rightarrow> int" where
  "trunc x = (if 0 \<le> x then \<lfloor>x\<rfloor> else \<lceil>x\<rceil>)"

text \<open>\<^verbatim>\<open>round(x)\<close> of a float: the nearest int, a tie goes to the even one.\<close>

definition round_half_even :: "rat \<Rightarrow> int" where
  "round_half_even x =
     (let f = \<lfloor>x\<rfloor>; r = x - of_int f in
      if r < 1 / 2 then f
      else if 1 / 2 < r then f + 1
      else if even f then f else f + 1)"

text \<open>\<^verbatim>\<open>round(x, n)\<close> of a float, for \<open>n\<close> decimals.\<close>

definition round_to :: "rat \<Rightarrow> nat \<Rightarrow> rat" where
  "round_to x n = of_int (round_half_even (x * 10 ^ n)) / 10 ^ n"

text \<open>\<^verbatim>\<open>round(v)\<close> of a value: an int is itself, a bool is 0 or 1.\<close>

fun py_round :: "pyval \<Rightarrow> int result" where
  "py_round (PInt i) = Inr i"
| "py_round (PFloat x) = Inr (round_half_even x)"
| "py_round (PBool b) = Inr (if b then 1 else 0)"
| "py_round _ = Inl TypeError"

text \<open>
  \<^verbatim>\<open>int(v)\<close>. What \<^verbatim>\<open>int\<close> reads from a string is the builtin's business: it is the
  parameter \<open>int_of_str\<close>, \<open>None\<close> where the builtin raises \<^verbatim>\<open>ValueError\<close>.
\<close>

fun py_int :: "(string \<Rightarrow> int option) \<Rightarrow> pyval \<Rightarrow> int result" where
  "py_int int_of_str (PInt i) = Inr i"
| "py_int int_of_str (PFloat x) = Inr (trunc x)"
| "py_int int_of_str (PBool b) = Inr (if b then 1 else 0)"
| "py_int int_of_str (PStr s) =
     (case int_of_str s of None \<Rightarrow> Inl ValueError | Some i \<Rightarrow> Inr i)"
| "py_int int_of_str _ = Inl TypeError"

text \<open>\<^verbatim>\<open>v / 1609.34\<close>: the left operand becomes a float.\<close>

fun py_div_float :: "pyval \<Rightarrow> rat \<Rightarrow> rat result" where
  "py_div_float (PInt i) d = bind_res (int_to_float i) (\<lambda>x. Inr (x / d))"
| "py_div_float (PFloat x) d = Inr (x / d)"
| "py_div_float (PBool b) d = bind_res (int_to_float (if b then 1 else 0)) (\<lambda>x. Inr (x / d))"
| "py_div_float _ d = Inl TypeError"

text \<open>
  \<^verbatim>\<open>v / 60\<close>: the true division of two ints raises \<^verbatim>\<open>OverflowError\<close> when the
  quotient leaves the binary64 range; a float is divided by \<open>60.0\<close>.
\<close>

definition int_truediv :: "int \<Rightarrow> int \<Rightarrow> rat result" where
  "int_truediv i d =
     (if d = 0 then Inl ZeroDivisionError
      else if dbl_fits (of_int i / of_int d) then Inr (of_int i / of_int d)
      else Inl OverflowError)"

fun py_div_int :: "pyval \<Rightarrow> int \<Rightarrow> rat result" where
  "py_div_int (PInt i) d = int_truediv i d"
| "py_div_int (PFloat x) d =
     (if d = 0 then Inl ZeroDivisionError
      else bind_res (int_to_float d) (\<lambda>y. Inr (x / y)))"
| "py_div_int (PBool b) d = int_truediv (if b then 1 else 0) d"
| "py_div_int _ d = Inl TypeError"

text \<open>\<^verbatim>\<open>str(n)\<close> of an int, and the format \<^verbatim>\<open>{n:02d}\<close>.\<close>

definition digit_char :: "nat \<Rightarrow> char" where
  "digit_char n = ''0123456789'' ! (n mod 10)"

fun str_nat :: "nat \<Rightarrow> string" where
  "str_nat n = (if n < 10 then [digit_char n] else str_nat (n div 10) @ [digit_char n])"

declare str_nat.simps [simp del]

definition str_int :: "int \<Rightarrow> string" where
  "str_int i = (if i < 0 then CHR ''-'' # str_nat (nat (- i)) else str_nat (nat i))"

definition format_02d :: "int \<Rightarrow> string" where
  "format_02d i =
     (let s = str_int i in if length s < 2 then CHR ''0'' # s else s)"

text \<open>\<^verbatim>\<open>needle in v\<close> for a string \<open>needle\<close>.\<close>

fun is_prefix :: "string \<Rightarrow> string \<Rightarrow> bool" where
  "is_prefix [] ys = True"
| "is_prefix (x # xs) [] = False"
| "is_prefix (x # xs) (y # ys) = (x = y \<and> is_prefix xs ys)"

fun is_substring :: "string \<Rightarrow> string \<Rightarrow> bool" where
  "is_substring xs [] = (xs = [])"
| "is_substring xs (y # ys) = (is_prefix xs (y # ys) \<or> is_substring xs ys)"

fun py_in :: "string \<Rightarrow> pyval \<Rightarrow> bool result" where
  "py_in needle (PStr s) = Inr (is_substring needle s)"
| "py_in needle (PList xs) = Inr (PStr needle \<in> set xs)"
| "py_in needle (PDict kvs) = Inr (needle \<in> fst ` set kvs)"
| "py_in needle _ = Inl TypeError"

text \<open>\<^verbatim>\<open>s.strip(chars)\<close>.\<close>

definition py_strip :: "string \<Rightarrow> string \<Rightarrow> string" where
  "py_strip chars s =
     rev (dropWhile (\<lambda>c. c \<in> set chars) (rev (dropWhile (\<lambda>c. c \<in> set chars) s)))"

text \<open>\<^verbatim>\<open>v[:10]\<close>: a string or a list has slices.\<close>

fun py_slice10 :: "pyval \<Rightarrow> pyval result" where
  "py_slice10 (PStr s) = Inr (PStr (take 10 s))"
| "py_slice10 (PList xs) = Inr (PList (take 10 xs))"
| "py_slice10 _ = Inl TypeError"

text \<open>\<^verbatim>\<open>s.replace('_', ' ')\<close> and \<^verbatim>\<open>s.title()\<close>, on ASCII.\<close>

definition lower_letters :: string where
  "lower_letters = ''abcdefghijklmnopqrstuvwxyz''"

definition upper_letters :: string where
  "upper_letters = ''ABCDEFGHIJKLMNOPQRSTUVWXYZ''"

definition to_upper :: "char \<Rightarrow> char" where
  "to_upper c = (case map_of (zip lower_letters upper_letters) c of None \<Rightarrow> c | Some u \<Rightarrow> u)"

definition to_lower :: "char \<Rightarrow> char" where
  "to_lower c = (case map_of (zip upper_letters lower_letters) c of None \<Rightarrow> c | Some l \<Rightarrow> l)"

definition is_cased :: "char \<Rightarrow> bool" where
  "is_cased c = (c \<in> set lower_letters \<or> c \<in> set upper_letters)"

fun title_from :: "bool \<Rightarrow> string \<Rightarrow> string" where
  "title_from previous_is_cased [] = []"
| "title_from previous_is_cased (c # cs) =
     (if is_cased c
      then (if previous_is_cased then to_lower c else to_upper c) # title_from True cs
      else c # title_from False cs)"

definition replace_underscore :: "string \<Rightarrow> string" where
  "replace_underscore s = map (\<lambda>c. if c = CHR ''_'' then CHR '' '' else c) s"

text \<open>\<^verbatim>\<open>raw_status.replace('_', ' ').title()\<close>: only a string has the methods.\<close>

fun format_status :: "pyval \<Rightarrow> string result" where
  "format_status (PStr s) = Inr (title_from False (replace_underscore s))"
| "format_status _ = Inl AttributeError"

section \<open>GarminSync: heart-rate variability\<close>

record hrv_baseline =
  balancedLow :: "int option"
  balancedUpper :: "int option"

record hrv_summary =
  hrv_date :: day
  weeklyAvg :: "int option"
  lastNightAvg :: "int option"
  status :: string
  baseline :: "hrv_baseline option"

text \<open>\<^verbatim>\<open>round(v) if v else None\<close>.\<close>

definition round_if :: "pyval \<Rightarrow> int option result" where
  "round_if v = (if truthy v then bind_res (py_round v) (\<lambda>n. Inr (Some n)) else Inr None)"

definition hrv_baseline_of :: "pyval \<Rightarrow> hrv_baseline option result" where
  "hrv_baseline_of baseline_raw =
     (if truthy baseline_raw then
        bind_res (py_get baseline_raw ''balancedLow'' PNone) (\<lambda>lo.
        bind_res (round_if lo) (\<lambda>lo'.
        bind_res (py_get baseline_raw ''balancedUpper'' PNone) (\<lambda>up.
        bind_res (round_if up) (\<lambda>up'.
          Inr (Some \<lparr>balancedLow = lo', balancedUpper = up'\<rparr>)))))
      else Inr None)"

text \<open>The body of the \<^verbatim>\<open>if\<close> in \<^verbatim>\<open>get_hrv_data\<close>: the record built from \<^verbatim>\<open>hrvSummary\<close>.\<close>

definition hrv_record :: "day \<Rightarrow> pyval \<Rightarrow> hrv_summary result" where
  "hrv_record target_date hrv_summary =
     bind_res (py_get hrv_summary ''weeklyAvg'' PNone) (\<lambda>weekly_avg.
     bind_res (py_get hrv_summary ''lastNightAvg'' PNone) (\<lambda>last_night_avg.
     bind_res (py_get hrv_summary ''baseline'' (PDict [])) (\<lambda>baseline_raw.
     bind_res (py_get hrv_summary ''status'' (PStr ''Unknown'')) (\<lambda>raw_status.
     bind_res (format_status raw_status) (\<lambda>status_str.
     bind_res (round_if weekly_avg) (\<lambda>wa.
     bind_res (round_if last_night_avg) (\<lambda>la.
     bind_res (hrv_baseline_of baseline_raw) (\<lambda>bl.
       Inr \<lparr>hrv_date = target_date, weeklyAvg = wa, lastNightAvg = la,
            status = status_str, baseline = bl\<rparr>))))))))"

text \<open>
  The loop inside the \<^verbatim>\<open>try\<close>: \<open>Inr None\<close> is "no HRV data found", \<open>Inl e\<close> an exception
  that leaves the loop.
\<close>

fun hrv_loop :: "client \<Rightarrow> day \<Rightarrow> nat list \<Rightarrow> hrv_summary option result" where
  "hrv_loop c today [] = Inr None"
| "hrv_loop c today (i # is) =
     (case client_get_hrv_data c (today - int i) of
        Inl e \<Rightarrow> Inl e
      | Inr hrv_response \<Rightarrow>
          if truthy hrv_response then
            (case py_get hrv_response ''hrvSummary'' PNone of
               Inl e \<Rightarrow> Inl e
             | Inr hrv_summary \<Rightarrow>
                 if truthy hrv_summary
                 then bind_res (hrv_record (today - int i) hrv_summary) (\<lambda>r. Inr (Some r))
                 else hrv_loop c today is)
          else hrv_loop c today is)"

text \<open>\<^verbatim>\<open>get_hrv_data(client, days)\<close>: \<^verbatim>\<open>except Exception\<close> prints a warning and returns \<^verbatim>\<open>None\<close>.\<close>

definition get_hrv_data :: "client \<Rightarrow> day \<Rightarrow> int \<Rightarrow> hrv_summary option" where
  "get_hrv_data c today days =
     (case hrv_loop c today (py_range days) of Inl e \<Rightarrow> None | Inr r \<Rightarrow> r)"


section \<open>GarminSync: recovery and readiness\<close>

text \<open>
  The dict \<^verbatim>\<open>recovery\<close>, and the state of the loop of \<^verbatim>\<open>get_recovery_data\<close>: the dict,
  \<^verbatim>\<open>resting_hr\<close>, and the calls made to the client so far (the effect of the
  function on the outside).
\<close>

datatype api_call = UserSummary day | TrainingReadiness day

record recovery =
  score :: pyval
  level :: pyval
  bodyBattery :: pyval
  sleepScore :: pyval
  hrvWeeklyAverage :: pyval

record rstate = recovery +
  resting_hr :: pyval
  calls :: "api_call list"

definition recovery_init :: rstate where
  "recovery_init =
     \<lparr>score = PNone, level = PNone, bodyBattery = PNone, sleepScore = PNone,
      hrvWeeklyAverage = PNone, resting_hr = PNone, calls = []\<rparr>"

text \<open>
  The first \<^verbatim>\<open>try\<close> block for one date. An exception can only come from the call or from
  \<^verbatim>\<open>.get\<close> on a summary that is no dict, both before any assignment, so
  \<^verbatim>\<open>except Exception: pass\<close> continues with the state as it was before the block.
\<close>

definition summary_try :: "client \<Rightarrow> day \<Rightarrow> rstate \<Rightarrow> rstate result" where
  "summary_try c date st =
     bind_res (get_user_summary c date) (\<lambda>summary.
       if truthy summary then
         bind_res
           (if resting_hr st = PNone then
              bind_res (py_get summary ''restingHeartRate'' PNone) (\<lambda>rhr.
                Inr (if truthy rhr then st\<lparr>resting_hr := rhr\<rparr> else st))
            else Inr st) (\<lambda>st1.
         if bodyBattery st1 = PNone then
           bind_res (py_get summary ''bodyBatteryMostRecentValue'' PNone) (\<lambda>bb.
             Inr (if bb \<noteq> PNone then st1\<lparr>bodyBattery := bb\<rparr> else st1))
         else Inr st1)
       else Inr st)"

definition summary_block :: "client \<Rightarrow> day \<Rightarrow> rstate \<Rightarrow> rstate" where
  "summary_block c date st =
     (let st0 = st\<lparr>calls := calls st @ [UserSummary date]\<rparr> in
      case summary_try c date st0 of Inl e \<Rightarrow> st0 | Inr st1 \<Rightarrow> st1)"

text \<open>The second \<^verbatim>\<open>try\<close> block: the readiness call is made only while the score is \<^verbatim>\<open>None\<close>.\<close>

fun is_dict :: "pyval \<Rightarrow> bool" where
  "is_dict (PDict kvs) = True"
| "is_dict _ = False"

definition readiness_try :: "client \<Rightarrow> day \<Rightarrow> rstate \<Rightarrow> rstate result" where
  "readiness_try c date st =
     bind_res (get_morning_training_readiness c date) (\<lambda>tr.
       if truthy tr \<and> is_dict tr then
         bind_res (py_get tr ''score'' PNone) (\<lambda>v1.
         bind_res (py_get tr ''level'' PNone) (\<lambda>v2.
         bind_res (py_get tr ''sleepScore'' PNone) (\<lambda>v3.
         bind_res (py_get tr ''hrvWeeklyAverage'' PNone) (\<lambda>v4.
           Inr (st\<lparr>score := v1, level := v2, sleepScore := v3, hrvWeeklyAverage := v4\<rparr>)))))
       else Inr st)"

definition readiness_block :: "client \<Rightarrow> day \<Rightarrow> rstate \<Rightarrow> rstate" where
  "readiness_block c date st =
     (if score st = PNone then
        (let st0 = st\<lparr>calls := calls st @ [TrainingReadiness date]\<rparr> in
         case readiness_try c date st0 of Inl e \<Rightarrow> st0 | Inr st1 \<Rightarrow> st1)
      else st)"

definition recovery_body :: "client \<Rightarrow> day \<Rightarrow> nat \<Rightarrow> rstate \<Rightarrow> rstate" where
  "recovery_body c today days_ago st =
     (let date = today - int days_ago in
      readiness_block c date (summary_block c date st))"

text \<open>The test of the \<^verbatim>\<open>break\<close>.\<close>

definition have_both :: "rstate \<Rightarrow> bool" where
  "have_both st = (score st \<noteq> PNone \<and> resting_hr st \<noteq> PNone)"

fun recovery_loop :: "client \<Rightarrow> day \<Rightarrow> nat list \<Rightarrow> rstate \<Rightarrow> rstate" where
  "recovery_loop c today [] st = st"
| "recovery_loop c today (days_ago # rest) st =
     (let st' = recovery_body c today days_ago st in
      if have_both st' then st' else recovery_loop c today rest st')"

text \<open>\<^verbatim>\<open>get_recovery_data(client)\<close>: the loop over \<^verbatim>\<open>range(0, 7)\<close>.\<close>

definition get_recovery_data :: "client \<Rightarrow> day \<Rightarrow> rstate" where
  "get_recovery_data c today = recovery_loop c today [0..<7] recovery_init"

section \<open>GarminSync: activities\<close>

record activity =
  act_date :: pyval
  act_type :: pyval
  act_name :: pyval
  distance_mi :: rat
  duration_min :: rat
  avg_hr :: "int option"
  max_hr :: "int option"
  calories :: "int option"
  pace :: "string option"

text \<open>\<^verbatim>\<open>act.get('activityType', {}).get('typeKey', d)\<close>.\<close>

definition type_key :: "pyval \<Rightarrow> string \<Rightarrow> pyval result" where
  "type_key act d =
     bind_res (py_get act ''activityType'' (PDict [])) (\<lambda>t. py_get t ''typeKey'' (PStr d))"

text \<open>\<^verbatim>\<open>act.get('distance', 0) / 1609.34\<close> and \<^verbatim>\<open>act.get('duration', 0) / 60\<close>.\<close>

definition miles :: "pyval \<Rightarrow> rat result" where
  "miles act = bind_res (py_get act ''distance'' (PInt 0)) (\<lambda>m. py_div_float m (160934 / 100))"

definition minutes :: "pyval \<Rightarrow> rat result" where
  "minutes act = bind_res (py_get act ''duration'' (PInt 0)) (\<lambda>s. py_div_int s 60)"

text \<open>\<^verbatim>\<open>int(v) if v else None\<close>.\<close>

definition int_if :: "(string \<Rightarrow> int option) \<Rightarrow> pyval \<Rightarrow> int option result" where
  "int_if int_of_str v =
     (if truthy v then bind_res (py_int int_of_str v) (\<lambda>n. Inr (Some n)) else Inr None)"

text \<open>The pace string of a running activity, before the \<^verbatim>\<open>strip\<close>.\<close>

definition pace_string :: "rat \<Rightarrow> rat \<Rightarrow> string" where
  "pace_string duration distance =
     (let pace_v = duration / distance;
          pace_min = trunc pace_v;
          pace_sec = trunc ((pace_v - of_int pace_min) * 60)
      in '' | '' @ str_int pace_min @ '':'' @ format_02d pace_sec @ ''/mi'')"

definition format_activity :: "(string \<Rightarrow> int option) \<Rightarrow> pyval \<Rightarrow> activity result" where
  "format_activity int_of_str act =
     bind_res (py_get act ''activityName'' (PStr ''Unknown'')) (\<lambda>name.
     bind_res (type_key act ''unknown'') (\<lambda>a_type.
     bind_res (py_get act ''startTimeLocal'' (PStr [])) (\<lambda>start.
     bind_res (py_slice10 start) (\<lambda>date.
     bind_res (miles act) (\<lambda>distance.
     bind_res (minutes act) (\<lambda>duration.
     bind_res (py_get act ''averageHR'' (PInt 0)) (\<lambda>avg_hr_v.
     bind_res (py_get act ''maxHR'' (PInt 0)) (\<lambda>max_hr_v.
     bind_res (py_get act ''calories'' (PInt 0)) (\<lambda>calories_v.
     bind_res (py_in ''running'' a_type) (\<lambda>running.
       let pace_str = (if running \<and> 0 < distance then pace_string duration distance else [])
       in
       bind_res (int_if int_of_str avg_hr_v) (\<lambda>a.
       bind_res (int_if int_of_str max_hr_v) (\<lambda>m.
       bind_res (int_if int_of_str calories_v) (\<lambda>k.
         Inr \<lparr>act_date = date, act_type = a_type, act_name = name,
              distance_mi = round_to distance 2, duration_min = round_to duration 1,
              avg_hr = a, max_hr = m, calories = k,
              pace = (if pace_str \<noteq> [] then Some (py_strip '' |'' pace_str) else None)\<rparr>
       )))))))))))))"


section \<open>GarminSync: statistics and the main pipeline\<close>

text \<open>\<^verbatim>\<open>for x in v\<close> and \<^verbatim>\<open>len(v)\<close>: the elements of a list, the characters of a string, the keys of a dict.\<close>

fun py_iter :: "pyval \<Rightarrow> pyval list result" where
  "py_iter (PList xs) = Inr xs"
| "py_iter (PStr s) = Inr (map (\<lambda>ch. PStr [ch]) s)"
| "py_iter (PDict kvs) = Inr (map (\<lambda>kv. PStr (fst kv)) kvs)"
| "py_iter _ = Inl TypeError"

text \<open>\<^verbatim>\<open>total += v\<close> on numbers: the sum is a float as soon as one operand is.\<close>

fun py_add :: "pyval \<Rightarrow> pyval \<Rightarrow> pyval result" where
  "py_add (PInt a) (PInt b) = Inr (PInt (a + b))"
| "py_add (PInt a) (PBool b) = Inr (PInt (a + (if b then 1 else 0)))"
| "py_add (PInt a) (PFloat y) = bind_res (int_to_float a) (\<lambda>x. Inr (PFloat (x + y)))"
| "py_add (PFloat x) (PInt b) = bind_res (int_to_float b) (\<lambda>y. Inr (PFloat (x + y)))"
| "py_add (PFloat x) (PBool b) = Inr (PFloat (x + (if b then 1 else 0)))"
| "py_add (PFloat x) (PFloat y) = Inr (PFloat (x + y))"
| "py_add _ _ = Inl TypeError"

record stats_acc =
  running_miles_acc :: rat
  running_time_acc :: rat
  strength_acc :: nat
  yoga_acc :: nat
  total_calories_acc :: pyval
  total_duration_acc :: rat

record stats =
  running_miles :: rat
  running_time_min :: rat
  strength_sessions :: nat
  yoga_sessions :: nat
  total_activities :: nat
  total_duration_min :: rat
  total_calories :: int

text \<open>The body of the loop of \<^verbatim>\<open>get_stats\<close>; an exception leaves the function.\<close>

definition stats_body :: "pyval \<Rightarrow> stats_acc \<Rightarrow> stats_acc result" where
  "stats_body act acc =
     bind_res (type_key act []) (\<lambda>a_type.
     bind_res (miles act) (\<lambda>distance.
     bind_res (minutes act) (\<lambda>duration.
     bind_res (py_get act ''calories'' (PInt 0)) (\<lambda>calories_v.
     bind_res (py_add (total_calories_acc acc) calories_v) (\<lambda>cal.
     bind_res (py_in ''running'' a_type) (\<lambda>running.
     bind_res (py_in ''strength'' a_type) (\<lambda>strength.
     bind_res (py_in ''yoga'' a_type) (\<lambda>yoga.
       Inr \<lparr>running_miles_acc = running_miles_acc acc + (if running then distance else 0),
            running_time_acc = running_time_acc acc + (if running then duration else 0),
            strength_acc = strength_acc acc + (if strength then 1 else 0),
            yoga_acc = yoga_acc acc + (if yoga then 1 else 0),
            total_calories_acc = cal,
            total_duration_acc = total_duration_acc acc + duration\<rparr>))))))))"

fun stats_loop :: "pyval list \<Rightarrow> stats_acc \<Rightarrow> stats_acc result" where
  "stats_loop [] acc = Inr acc"
| "stats_loop (act # acts) acc =
     (case stats_body act acc of Inl e \<Rightarrow> Inl e | Inr acc' \<Rightarrow> stats_loop acts acc')"

definition get_stats :: "pyval \<Rightarrow> stats result" where
  "get_stats activities =
     bind_res (py_iter activities) (\<lambda>acts.
     bind_res (stats_loop acts
        \<lparr>running_miles_acc = 0, running_time_acc = 0, strength_acc = 0, yoga_acc = 0,
         total_calories_acc = PInt 0, total_duration_acc = 0\<rparr>) (\<lambda>acc.
     bind_res (py_int (\<lambda>s. None) (total_calories_acc acc)) (\<lambda>cal.
       Inr \<lparr>running_miles = round_to (running_miles_acc acc) 1,
            running_time_min = round_to (running_time_acc acc) 0,
            strength_sessions = strength_acc acc,
            yoga_sessions = yoga_acc acc,
            total_activities = length acts,
            total_duration_min = round_to (total_duration_acc acc) 0,
            total_calories = cal\<rparr>)))"

text \<open>The list comprehension \<^verbatim>\<open>[f(a) for a in xs]\<close>: the first exception ends it.\<close>

fun map_res :: "('a \<Rightarrow> 'b result) \<Rightarrow> 'a list \<Rightarrow> 'b list result" where
  "map_res f [] = Inr []"
| "map_res f (x # xs) =
     (case f x of
        Inl e \<Rightarrow> Inl e
      | Inr y \<Rightarrow> (case map_res f xs of Inl e \<Rightarrow> Inl e | Inr ys \<Rightarrow> Inr (y # ys)))"

record garmin_result =
  res_user :: pyval
  period_days :: int
  res_recovery :: recovery
  restingHR :: pyval
  res_hrv :: "hrv_summary option"
  res_sleep :: "sleep_summary option"
  res_stats :: stats
  res_activities :: "activity list"

text \<open>
  \<^verbatim>\<open>main\<close> up to the document \<^verbatim>\<open>result\<close>; the rendering as JSON or text is not modelled.
  \<open>login\<close> is the outcome of \<^verbatim>\<open>get_client()\<close>, \<open>days\<close> the value of \<^verbatim>\<open>--days\<close>.
  \<open>Inl e\<close> is the exception that \<^verbatim>\<open>main\<close> reports before it exits with status 1.
  The calls are in the order of the source: \<^verbatim>\<open>get_sleep_data(client, args.days)\<close>,
  \<^verbatim>\<open>get_hrv_data(client)\<close> with the default \<^verbatim>\<open>days=7\<close>, \<^verbatim>\<open>get_recovery_data(client)\<close>.
\<close>

definition main :: "(string \<Rightarrow> int option) \<Rightarrow> client result \<Rightarrow> day \<Rightarrow> int \<Rightarrow> garmin_result result" where
  "main int_of_str login today days =
     bind_res login (\<lambda>c.
     bind_res (get_activities_by_date c (today - days) today) (\<lambda>activities.
       let sleep_records = get_sleep_data c today days;
           hrv = get_hrv_data c today 7;
           rs = get_recovery_data c today
       in
       bind_res (py_iter activities) (\<lambda>acts.
       bind_res (map_res (format_activity int_of_str) acts) (\<lambda>formatted.
       bind_res (get_stats activities) (\<lambda>st.
       bind_res (format_sleep sleep_records) (\<lambda>sleep.
       bind_res (get_full_name c) (\<lambda>user.
         Inr \<lparr>res_user = user, period_days = days,
              res_recovery = recovery.truncate rs, restingHR = resting_hr rs,
              res_hrv = hrv, res_sleep = sleep, res_stats = st,
              res_activities = formatted\<rparr>)))))))"

section \<open>Kokoro server\<close>

text \<open>
  \<^verbatim>\<open>float(v)\<close>. What \<^verbatim>\<open>float\<close> reads from a string is the builtin's business: it is
  the parameter \<open>float_of_str\<close>, \<open>None\<close> where the builtin raises \<^verbatim>\<open>ValueError\<close>.
\<close>

fun py_float :: "(string \<Rightarrow> rat option) \<Rightarrow> pyval \<Rightarrow> rat result" where
  "py_float float_of_str (PFloat x) = Inr x"
| "py_float float_of_str (PInt i) = int_to_float i"
| "py_float float_of_str (PBool b) = Inr (if b then 1 else 0)"
| "py_float float_of_str (PStr s) =
     (case float_of_str s of None \<Rightarrow> Inl ValueError | Some x \<Rightarrow> Inr x)"
| "py_float float_of_str _ = Inl TypeError"

text \<open>
  What the handler works with. \<open>body_json\<close> is the outcome of
  \<^verbatim>\<open>json.loads(self.rfile.read(int(self.headers.get("Content-Length", 0))))\<close>.
  The speech engine is a collaborator: \<open>get_kokoro\<close> is the outcome of loading it,
  \<open>kokoro_create\<close> the samples and the sample rate it makes of a text, a voice and a
  speed, \<open>sf_write\<close> the WAV bytes. \<open>exc_str\<close> is \<^verbatim>\<open>str(e)\<close>.
\<close>

record request =
  path :: string
  body_json :: "pyval result"

record engine =
  float_of_str :: "string \<Rightarrow> rat option"
  exc_str :: "py_error \<Rightarrow> string"
  get_kokoro :: "unit result"
  kokoro_create :: "pyval \<Rightarrow> pyval \<Rightarrow> rat \<Rightarrow> (rat list \<times> int) result"
  sf_write :: "rat list \<Rightarrow> int \<Rightarrow> string result"

datatype payload = JsonBody pyval | WavBody string

record response =
  status_code :: nat
  content_type :: string
  payload :: payload

datatype engine_call = GetKokoro | Create pyval pyval rat

text \<open>What a request does: the response written, and the calls made to the engine.\<close>

record outcome =
  response :: response
  engine_calls :: "engine_call list"

text \<open>\<^verbatim>\<open>_json_response(code, data)\<close>: the body is \<^verbatim>\<open>json.dumps(data)\<close>.\<close>

definition json_response :: "nat \<Rightarrow> pyval \<Rightarrow> response" where
  "json_response code data =
     \<lparr>status_code = code, content_type = ''application/json'', payload = JsonBody data\<rparr>"

definition error_body :: "string \<Rightarrow> pyval" where
  "error_body msg = PDict [(''error'', PStr msg)]"

text \<open>Lines 75 to 80 of the handler: the body, and the three fields read from it.\<close>

definition read_fields :: "engine \<Rightarrow> request \<Rightarrow> (pyval \<times> pyval \<times> rat) result" where
  "read_fields eng req =
     bind_res (body_json req) (\<lambda>body.
     bind_res (py_get body ''input'' (PStr [])) (\<lambda>text_v.
     bind_res (py_get body ''voice'' (PStr ''af_heart'')) (\<lambda>voice.
     bind_res (py_get body ''speed'' (PFloat 1)) (\<lambda>speed_v.
     bind_res (py_float (float_of_str eng) speed_v) (\<lambda>speed.
       Inr (text_v, voice, speed))))))"

text \<open>
  Lines 86 to 103: the synthesis and the audio response. The second component is
  the list of the calls made to the engine, also when an exception ends the block.
\<close>

definition synthesize :: "engine \<Rightarrow> pyval \<Rightarrow> pyval \<Rightarrow> rat \<Rightarrow> response result \<times> engine_call list" where
  "synthesize eng text_v voice speed =
     (case get_kokoro eng of
        Inl e \<Rightarrow> (Inl e, [GetKokoro])
      | Inr u \<Rightarrow>
          (case kokoro_create eng text_v voice speed of
             Inl e \<Rightarrow> (Inl e, [GetKokoro, Create text_v voice speed])
           | Inr (samples, sample_rate) \<Rightarrow>
               (bind_res (sf_write eng samples sample_rate) (\<lambda>wav_bytes.
                bind_res (int_truediv (int (length samples)) sample_rate) (\<lambda>duration.
                  Inr \<lparr>status_code = 200, content_type = ''audio/wav'',
                       payload = WavBody wav_bytes\<rparr>)),
                [GetKokoro, Create text_v voice speed])))"

text \<open>The \<^verbatim>\<open>try\<close> block of \<^verbatim>\<open>do_POST\<close>.\<close>

definition speech_try :: "engine \<Rightarrow> request \<Rightarrow> response result \<times> engine_call list" where
  "speech_try eng req =
     (case read_fields eng req of
        Inl e \<Rightarrow> (Inl e, [])
      | Inr (text_v, voice, speed) \<Rightarrow>
          if \<not> truthy text_v
          then (Inr (json_response 400 (error_body ''Missing 'input' field'')), [])
          else synthesize eng text_v voice speed)"

definition do_POST :: "engine \<Rightarrow> request \<Rightarrow> outcome" where
  "do_POST eng req =
     (if path req \<noteq> ''/v1/audio/speech''
      then \<lparr>response = json_response 404 (error_body ''Not found. Use POST /v1/audio/speech''),
            engine_calls = []\<rparr>
      else
        (case speech_try eng req of
           (Inl e, cs) \<Rightarrow>
             \<lparr>response = json_response 500 (error_body (exc_str eng e)), engine_calls = cs\<rparr>
         | (Inr r, cs) \<Rightarrow> \<lparr>response = r, engine_calls = cs\<rparr>))"

text \<open>
  \<^verbatim>\<open>log_message(format, *args)\<close>. The base class passes strings and ints; the line it
  writes holds \<^verbatim>\<open>format % args\<close>, of which \<^verbatim>\<open>%s\<close>, \<^verbatim>\<open>%d\<close> and \<^verbatim>\<open>%%\<close> are modelled.
  \<open>None\<close>: nothing is logged.
\<close>

datatype log_arg = LStr string | LInt int

fun str_arg :: "log_arg \<Rightarrow> string" where
  "str_arg (LStr s) = s"
| "str_arg (LInt i) = str_int i"

fun percent_format :: "string \<Rightarrow> log_arg list \<Rightarrow> string" where
  "percent_format [] args = []"
| "percent_format [ch] args = [ch]"
| "percent_format (ch # d # cs) args =
     (if ch = CHR ''%'' \<and> d = CHR ''%'' then CHR ''%'' # percent_format cs args
      else if ch = CHR ''%'' \<and> (d = CHR ''s'' \<or> d = CHR ''d'') then
        (case args of
           [] \<Rightarrow> percent_format cs args
         | a # rest \<Rightarrow> str_arg a @ percent_format cs rest)
      else ch # percent_format (d # cs) args)"

definition log_message :: "string \<Rightarrow> log_arg list \<Rightarrow> string option" where
  "log_message fmt args =
     (if args \<noteq> [] \<and> is_substring ''500'' (str_arg (hd args))
      then Some (percent_format fmt args)
      else None)"

text \<open>
  The call that \<^verbatim>\<open>send_response(code)\<close> of the base class makes for every response
  (\<^verbatim>\<open>log_request\<close> in \<^verbatim>\<open>http.server\<close>):
  \<^verbatim>\<open>self.log_message('"%s" %s %s', self.requestline, str(code), str(size))\<close>
  with the default size \<^verbatim>\<open>'-'\<close>.
\<close>

definition log_request :: "string \<Rightarrow> nat \<Rightarrow> string option" where
  "log_request requestline code =
     log_message [CHR 0x22, CHR ''%'', CHR ''s'', CHR 0x22, CHR '' '', CHR ''%'', CHR ''s'',
                  CHR '' '', CHR ''%'', CHR ''s'']
       [LStr requestline, LStr (str_nat code), LStr ''-'']"


section \<open>Notions of the specification\<close>

text \<open>
  The state of the recovery loop after the first \<open>n\<close> days of the window, when no
  \<^verbatim>\<open>break\<close> is taken; the dates of the \<^verbatim>\<open>get_user_summary\<close> calls in a call log, which
  are the days the scan has visited; and the value of a field in a day's response
  (\<^verbatim>\<open>None\<close> when the call raises, the response is no dict or the key is missing).
\<close>

definition recovery_prefix :: "client \<Rightarrow> day \<Rightarrow> nat \<Rightarrow> rstate" where
  "recovery_prefix c today n = fold (recovery_body c today) [0..<n] recovery_init"

fun summary_days :: "api_call list \<Rightarrow> day list" where
  "summary_days [] = []"
| "summary_days (UserSummary d # cs) = d # summary_days cs"
| "summary_days (TrainingReadiness d # cs) = summary_days cs"

fun dict_field :: "pyval result \<Rightarrow> string \<Rightarrow> pyval" where
  "dict_field (Inr (PDict kvs)) k = (case map_of kvs k of None \<Rightarrow> PNone | Some v \<Rightarrow> v)"
| "dict_field _ k = PNone"

definition readiness_field :: "client \<Rightarrow> day \<Rightarrow> nat \<Rightarrow> string \<Rightarrow> pyval" where
  "readiness_field c today i k = dict_field (get_morning_training_readiness c (today - int i)) k"

definition summary_field :: "client \<Rightarrow> day \<Rightarrow> nat \<Rightarrow> string \<Rightarrow> pyval" where
  "summary_field c today i k = dict_field (get_user_summary c (today - int i)) k"

text \<open>
  The words of the specification, "each field independently takes the first non-null
  value found scanning today..today-6", for a field of the readiness response.
\<close>

definition first_non_null :: "client \<Rightarrow> day \<Rightarrow> string \<Rightarrow> pyval" where
  "first_non_null c today k =
     (case filter (\<lambda>v. v \<noteq> PNone) (map (\<lambda>i. readiness_field c today i k) [0..<7]) of
        [] \<Rightarrow> PNone
      | v # _ \<Rightarrow> v)"

text \<open>The value read for a key of the body, with the default of the handler.\<close>

definition field_or :: "(string \<times> pyval) list \<Rightarrow> string \<Rightarrow> pyval \<Rightarrow> pyval" where
  "field_or kvs k d = (case map_of kvs k of None \<Rightarrow> d | Some v \<Rightarrow> v)"

text \<open>
  A datum that tells the formatter nothing: the key is missing from the provider's
  record, or its value is falsy (\<^verbatim>\<open>None\<close>, \<^verbatim>\<open>0\<close>, \<^verbatim>\<open>0.0\<close>, an empty string or container).
\<close>

definition absent_or_falsy :: "(string \<times> pyval) list \<Rightarrow> string \<Rightarrow> bool" where
  "absent_or_falsy kvs k = (case map_of kvs k of None \<Rightarrow> True | Some v \<Rightarrow> \<not> truthy v)"

section \<open>Example inputs\<close>

text \<open>
  Concrete clients and requests, on which the theorems below are instantiated.
  Day 100 is today. \<open>quiet_client\<close> has no data on any day.
\<close>

definition quiet_client :: client where
  "quiet_client =
     \<lparr>get_activities_by_date = (\<lambda>a b. Inr (PList [])),
      client_get_sleep_data = (\<lambda>d. Inr PNone),
      client_get_hrv_data = (\<lambda>d. Inr PNone),
      get_user_summary = (\<lambda>d. Inr PNone),
      get_morning_training_readiness = (\<lambda>d. Inr PNone),
      get_full_name = Inr (PStr ''Max'')\<rparr>"

definition night :: "int \<Rightarrow> pyval" where
  "night secs = PDict [(''dailySleepDTO'', PDict [(''sleepTimeSeconds'', PInt secs), (''deepSleepSeconds'', PInt 3600)])]"

definition sleep_client :: client where
  "sleep_client = quiet_client
     \<lparr>client_get_sleep_data :=
        (\<lambda>d. if d = 98 then Inr (night 27000)
             else if d = 99 then Inl (ExternalError ''timeout'')
             else Inr (night 0))\<rparr>"

definition recov_client :: client where
  "recov_client = quiet_client
     \<lparr>get_user_summary :=
        (\<lambda>d. if d = 100 then Inl (ExternalError ''503'')
             else if d = 99 then
               Inr (PDict [(''restingHeartRate'', PInt 52),
                           (''bodyBatteryMostRecentValue'', PInt 80)])
             else
               Inr (PDict [(''restingHeartRate'', PInt 60),
                           (''bodyBatteryMostRecentValue'', PInt 20)])),
      get_morning_training_readiness :=
        (\<lambda>d. if d = 100 then Inr (PDict [(''level'', PStr ''HIGH'')])
             else if d = 99 then
               Inr (PDict [(''score'', PInt 50), (''level'', PStr ''LOW'')])
             else
               Inr (PDict [(''score'', PInt 90), (''level'', PStr ''PRIME'')]))\<rparr>"

definition failing_client :: client where
  "failing_client = quiet_client
     \<lparr>get_user_summary := (\<lambda>d. Inl (ExternalError ''timeout'')),
      get_morning_training_readiness := (\<lambda>d. Inl (ExternalError ''timeout''))\<rparr>"

text \<open>
  An engine that always succeeds, whose \<^verbatim>\<open>float\<close> reads the string \<^verbatim>\<open>"2"\<close> and no
  other, and a request to the speech endpoint with a JSON object as its body.
\<close>

definition demo_engine :: engine where
  "demo_engine =
     \<lparr>float_of_str = (\<lambda>s. if s = ''2'' then Some 2 else None),
      exc_str = (\<lambda>e. case e of ExternalError m \<Rightarrow> m | _ \<Rightarrow> ''error''),
      get_kokoro = Inr (),
      kokoro_create = (\<lambda>t v s. Inr ([0, 1 / 2], 24000)),
      sf_write = (\<lambda>samples rate. Inr ''RIFF'')\<rparr>"

definition speech_request :: "(string \<times> pyval) list \<Rightarrow> request" where
  "speech_request kvs = \<lparr>path = ''/v1/audio/speech'', body_json = Inr (PDict kvs)\<rparr>"

text \<open>
  A run of 8046.7 m (5 miles) in 1800 s (30 minutes), with an average heart rate of 0;
  an HRV summary; and a client whose only HRV data is 4 days old.
\<close>

definition run_fields :: "(string \<times> pyval) list" where
  "run_fields =
     [(''activityName'', PStr ''Morning Run''),
      (''activityType'', PDict [(''typeKey'', PStr ''trail_running'')]),
      (''startTimeLocal'', PStr ''2024-05-01 07:30:00''),
      (''distance'', PFloat (80467 / 10)),
      (''duration'', PInt 1800),
      (''averageHR'', PInt 0),
      (''maxHR'', PFloat (1715 / 10)),
      (''calories'', PInt 410)]"

definition run_act :: pyval where
  "run_act = PDict run_fields"

definition hrv_fields :: "(string \<times> pyval) list" where
  "hrv_fields =
     [(''weeklyAvg'', PInt 45), (''lastNightAvg'', PFloat (85 / 2)),
      (''status'', PStr ''LOW_BALANCED''),
      (''baseline'', PDict [(''balancedLow'', PInt 40), (''balancedUpper'', PInt 0)])]"

definition hrv_day :: pyval where
  "hrv_day = PDict [(''hrvSummary'', PDict hrv_fields)]"

definition hrv_client :: client where
  "hrv_client = quiet_client
     \<lparr>client_get_hrv_data :=
        (\<lambda>d. if d = 96 then Inr hrv_day else Inr (PDict [(''hrvSummary'', PNone)]))\<rparr>"

section \<open>Sleep selection\<close>

lemma sleep_body_eq:
  "sleep_body c today i acc =
     (if has_sleep c today i then acc @ [sleep_entry_at c today i] else acc)"
proof (cases "client_get_sleep_data c (today - int i)")
  case (Inl e)
  then show ?thesis
    by (simp add: sleep_body_def sleep_try_def has_sleep_def bind_res_def)
next
  case (Inr v)
  show ?thesis
  proof (cases v)
    case (PDict kvs)
    show ?thesis
    proof (cases "map_of kvs ''dailySleepDTO''")
      case None
      with Inr PDict show ?thesis
        by (simp add: sleep_body_def sleep_try_def has_sleep_def bind_res_def)
    next
      case (Some d)
      with Inr PDict show ?thesis
        by (cases d)
           (auto simp: sleep_body_def sleep_try_def has_sleep_def bind_res_def
                       sleep_entry_at_def split: option.splits)
    qed
  qed (use Inr in \<open>simp_all add: sleep_body_def sleep_try_def has_sleep_def bind_res_def\<close>)
qed

lemma sleep_loop_eq:
  "sleep_loop c today is acc =
     acc @ map (sleep_entry_at c today) (filter (has_sleep c today) is)"
  by (induction "is" arbitrary: acc) (simp_all add: sleep_body_eq)

lemma get_sleep_data_eq:
  "get_sleep_data c today days =
     map (sleep_entry_at c today) (filter (has_sleep c today) (py_range days))"
  by (simp add: get_sleep_data_def sleep_loop_eq)

lemma has_sleepE:
  assumes "has_sleep c today i"
  obtains kvs ds s where "client_get_sleep_data c (today - int i) = Inr (PDict kvs)"
    and "map_of kvs ''dailySleepDTO'' = Some (PDict ds)"
    and "map_of ds ''sleepTimeSeconds'' = Some s" and "truthy s"
proof -
  from assms obtain v s where v: "client_get_sleep_data c (today - int i) = Inr v"
    and s: "sleep_time_of v = Some s" "truthy s"
    by (auto simp: has_sleep_def split: sum.splits option.splits)
  from s(1) obtain kvs where kvs: "v = PDict kvs" by (cases v) simp_all
  with s(1) obtain d where d: "map_of kvs ''dailySleepDTO'' = Some d"
    by (cases "map_of kvs ''dailySleepDTO''") simp_all
  with s(1) kvs obtain ds where "d = PDict ds" by (cases d) simp_all
  with v kvs d s that show thesis by simp
qed

lemma format_sleep_first:
  assumes "has_sleep c today i"
  shows "\<exists>s. format_sleep (sleep_entry_at c today i # rest) = Inr (Some s)
            \<and> sleep_date s = today - int i \<and> truthy (sleepTimeSeconds s)"
  using assms
  by (elim has_sleepE)
     (simp add: format_sleep_def sleep_entry_at_def sleep_fields_def bind_res_def)


lemma upt_three: "[0..<3] = [0, 1, 2::nat]"
  by (simp add: upt_rec [of _ 3] upt_rec [of _ "Suc _"] numeral_3_eq_3)

lemma filter_only_two:
  assumes "2 < n" and "\<forall>i<n. P i = (i = 2)"
  shows "filter P [0..<n] = [2::nat]"
proof -
  from assms(1) have "[0..<3 + (n - 3)] = [0..<3] @ [3..<3 + (n - 3)]"
    by (intro upt_add_eq_append) simp
  with assms(1) have split: "[0..<n] = [0, 1, 2] @ [3..<n]"
    by (simp add: upt_three)
  from assms have head: "filter P [0, 1, 2] = [2]" by simp
  from assms(2) have tail: "filter P [3..<n] = []"
    by (auto simp: filter_empty_conv)
  have "filter P [0..<n] = filter P [0, 1, 2] @ filter P [3..<n]"
    by (simp only: split filter_append)
  with head tail show ?thesis by (simp only: append_Nil2)
qed

text \<open>
  Claim C5. For every \<^verbatim>\<open>--days\<close> value and every family of per-day sleep responses,
  \<^verbatim>\<open>get_sleep_data\<close> keeps exactly the offsets of the window whose response has a truthy
  \<^verbatim>\<open>dailySleepDTO.sleepTimeSeconds\<close> (a call that raises skips its day), today first;
  \<^verbatim>\<open>format_sleep\<close> selects the first kept entry, and returns \<^verbatim>\<open>None\<close> when no day
  qualifies. If offset 2 lies in the window and is the only day that qualifies, the
  selected record is dated today minus 2 days.
\<close>

theorem sleep_selection:
  "get_sleep_data c today days =
     map (sleep_entry_at c today) (filter (has_sleep c today) (py_range days))
   \<and> (case filter (has_sleep c today) (py_range days) of
        [] \<Rightarrow> format_sleep (get_sleep_data c today days) = Inr None
      | i # rest \<Rightarrow>
          (\<exists>s. format_sleep (get_sleep_data c today days) = Inr (Some s)
               \<and> sleep_date s = today - int i \<and> truthy (sleepTimeSeconds s)))
   \<and> (2 < days \<and> (\<forall>i<nat days. has_sleep c today i = (i = 2)) \<longrightarrow>
        (\<exists>s. format_sleep (get_sleep_data c today days) = Inr (Some s)
             \<and> sleep_date s = today - 2))"
proof -
  let ?kept = "filter (has_sleep c today) (py_range days)"
  have eq: "get_sleep_data c today days = map (sleep_entry_at c today) ?kept"
    by (rule get_sleep_data_eq)
  have sel: "case ?kept of
        [] \<Rightarrow> format_sleep (get_sleep_data c today days) = Inr None
      | i # rest \<Rightarrow>
          (\<exists>s. format_sleep (get_sleep_data c today days) = Inr (Some s)
               \<and> sleep_date s = today - int i \<and> truthy (sleepTimeSeconds s))"
  proof (cases ?kept)
    case Nil
    then show ?thesis by (simp add: eq format_sleep_def)
  next
    case (Cons i rest)
    then have "i \<in> set ?kept" by simp
    then have "has_sleep c today i" by simp
    from format_sleep_first [OF this] Cons show ?thesis by (simp add: eq)
  qed
  have two: "\<exists>s. format_sleep (get_sleep_data c today days) = Inr (Some s)
             \<and> sleep_date s = today - 2"
    if "2 < days" and "\<forall>i<nat days. has_sleep c today i = (i = 2)"
  proof -
    from that have "?kept = [2]"
      by (simp add: py_range_def filter_only_two)
    with sel show ?thesis by auto
  qed
  from eq sel two show ?thesis by blast
qed

theorem sleep_selection_witness:
  "\<exists>s. format_sleep (get_sleep_data sleep_client 100 5) = Inr (Some s) \<and> sleep_date s = 98"
proof -
  have "has_sleep sleep_client 100 i = (i = 2)" if "i < 5" for i
  proof -
    from that consider "i = 0" | "i = 1" | "i = 2" | "i = 3" | "i = 4" by linarith
    then show ?thesis
      by cases (simp_all add: has_sleep_def sleep_client_def quiet_client_def night_def)
  qed
  then have hyp: "(2::int) < 5 \<and> (\<forall>i<nat 5. has_sleep sleep_client 100 i = (i = 2))" by simp
  from sleep_selection [of sleep_client 100 5]
  have "(2::int) < 5 \<and> (\<forall>i<nat 5. has_sleep sleep_client 100 i = (i = 2)) \<longrightarrow>
        (\<exists>s. format_sleep (get_sleep_data sleep_client 100 5) = Inr (Some s)
             \<and> sleep_date s = 100 - 2)"
    by (elim conjE)
  with hyp have "\<exists>s. format_sleep (get_sleep_data sleep_client 100 5) = Inr (Some s)
             \<and> sleep_date s = 100 - 2"
    by (rule rev_mp)
  then show ?thesis by simp
qed

section \<open>Recovery and readiness scan\<close>

lemma summary_block_group:
  "score (summary_block c d st) = score st"
  "level (summary_block c d st) = level st"
  "sleepScore (summary_block c d st) = sleepScore st"
  "hrvWeeklyAverage (summary_block c d st) = hrvWeeklyAverage st"
  by (auto simp: summary_block_def summary_try_def bind_res_def Let_def
           split: sum.splits if_splits)

lemma summary_block_calls:
  "calls (summary_block c d st) = calls st @ [UserSummary d]"
  by (auto simp: summary_block_def summary_try_def bind_res_def Let_def
           split: sum.splits if_splits)

lemma summary_block_bb_kept:
  "bodyBattery st \<noteq> PNone \<Longrightarrow> bodyBattery (summary_block c d st) = bodyBattery st"
  by (auto simp: summary_block_def summary_try_def bind_res_def Let_def
           split: sum.splits if_splits)

lemma dict_field_get:
  "py_get v k PNone = Inr x \<Longrightarrow> dict_field (Inr v) k = x"
  by (cases v) (auto split: option.splits)

lemma dict_field_not_dict:
  "py_get v k PNone = Inl e \<Longrightarrow> dict_field (Inr v) k = PNone"
  by (cases v) auto

lemma dict_field_falsy:
  "\<not> truthy v \<Longrightarrow> dict_field (Inr v) k = PNone"
  by (cases v) auto

lemma summary_block_bb_new:
  assumes "bodyBattery st = PNone"
  shows "bodyBattery (summary_block c d st) =
     dict_field (get_user_summary c d) ''bodyBatteryMostRecentValue''"
proof (cases "get_user_summary c d")
  case (Inl e)
  with assms show ?thesis
    by (simp add: summary_block_def summary_try_def bind_res_def)
next
  case (Inr v)
  with assms show ?thesis
    by (cases v)
       (auto simp: summary_block_def summary_try_def bind_res_def Let_def
             split: option.splits)
qed

lemma summary_block_raise:
  "get_user_summary c d = Inl e \<Longrightarrow>
   summary_block c d st = st\<lparr>calls := calls st @ [UserSummary d]\<rparr>"
  by (simp add: summary_block_def summary_try_def bind_res_def)

lemma readiness_block_other:
  "bodyBattery (readiness_block c d st) = bodyBattery st"
  "resting_hr (readiness_block c d st) = resting_hr st"
  by (auto simp: readiness_block_def readiness_try_def bind_res_def Let_def
           split: sum.splits if_splits)

lemma readiness_block_done:
  "score st \<noteq> PNone \<Longrightarrow> readiness_block c d st = st"
  by (simp add: readiness_block_def)

lemma readiness_block_calls:
  "summary_days (calls (readiness_block c d st)) = summary_days (calls st)"
proof -
  have app: "summary_days (xs @ [TrainingReadiness d]) = summary_days xs" for xs
    by (induction xs rule: summary_days.induct) simp_all
  show ?thesis
    by (auto simp: readiness_block_def readiness_try_def bind_res_def Let_def app
             split: sum.splits if_splits)
qed

lemma summary_days_snoc:
  "summary_days (xs @ [UserSummary d]) = summary_days xs @ [d]"
  by (induction xs rule: summary_days.induct) simp_all

lemma recovery_body_days:
  "summary_days (calls (recovery_body c today i st)) =
     summary_days (calls st) @ [today - int i]"
  by (simp add: recovery_body_def Let_def readiness_block_calls summary_block_calls summary_days_snoc)

lemma recovery_body_bb_kept:
  "bodyBattery st \<noteq> PNone \<Longrightarrow> bodyBattery (recovery_body c today i st) = bodyBattery st"
  by (simp add: recovery_body_def Let_def readiness_block_other summary_block_bb_kept)

lemma recovery_body_bb_new:
  "bodyBattery st = PNone \<Longrightarrow>
   bodyBattery (recovery_body c today i st) =
     summary_field c today i ''bodyBatteryMostRecentValue''"
  by (simp add: recovery_body_def Let_def readiness_block_other summary_block_bb_new summary_field_def)

lemma recovery_body_group_kept:
  assumes "score st \<noteq> PNone"
  shows "score (recovery_body c today i st) = score st"
    and "level (recovery_body c today i st) = level st"
    and "sleepScore (recovery_body c today i st) = sleepScore st"
    and "hrvWeeklyAverage (recovery_body c today i st) = hrvWeeklyAverage st"
    and "\<forall>d. TrainingReadiness d \<in> set (calls (recovery_body c today i st))
            \<longrightarrow> TrainingReadiness d \<in> set (calls st)"
  using assms
  by (simp_all add: recovery_body_def Let_def readiness_block_done summary_block_group
                    summary_block_calls)

lemma readiness_block_new:
  assumes "score st = PNone"
  shows "score (readiness_block c d st) =
           dict_field (get_morning_training_readiness c d) ''score''"
    and "dict_field (get_morning_training_readiness c d) ''score'' \<noteq> PNone \<Longrightarrow>
           level (readiness_block c d st) =
             dict_field (get_morning_training_readiness c d) ''level''
         \<and> sleepScore (readiness_block c d st) =
             dict_field (get_morning_training_readiness c d) ''sleepScore''
         \<and> hrvWeeklyAverage (readiness_block c d st) =
             dict_field (get_morning_training_readiness c d) ''hrvWeeklyAverage''"
proof -
  show "score (readiness_block c d st) =
           dict_field (get_morning_training_readiness c d) ''score''"
  proof (cases "get_morning_training_readiness c d")
    case (Inl e)
    with assms show ?thesis
      by (simp add: readiness_block_def readiness_try_def bind_res_def)
  next
    case (Inr v)
    with assms show ?thesis
      by (cases v)
         (auto simp: readiness_block_def readiness_try_def bind_res_def Let_def
               split: option.splits)
  qed
  show "level (readiness_block c d st) =
             dict_field (get_morning_training_readiness c d) ''level''
         \<and> sleepScore (readiness_block c d st) =
             dict_field (get_morning_training_readiness c d) ''sleepScore''
         \<and> hrvWeeklyAverage (readiness_block c d st) =
             dict_field (get_morning_training_readiness c d) ''hrvWeeklyAverage''"
    if "dict_field (get_morning_training_readiness c d) ''score'' \<noteq> PNone"
  proof (cases "get_morning_training_readiness c d")
    case (Inl e)
    with that show ?thesis by simp
  next
    case (Inr v)
    with assms that show ?thesis
      by (cases v)
         (auto simp: readiness_block_def readiness_try_def bind_res_def Let_def
               split: option.splits)
  qed
qed

lemma recovery_body_group_new:
  assumes "score st = PNone"
  shows "score (recovery_body c today i st) = readiness_field c today i ''score''"
    and "readiness_field c today i ''score'' \<noteq> PNone \<Longrightarrow>
           level (recovery_body c today i st) = readiness_field c today i ''level''
         \<and> sleepScore (recovery_body c today i st) = readiness_field c today i ''sleepScore''
         \<and> hrvWeeklyAverage (recovery_body c today i st) =
             readiness_field c today i ''hrvWeeklyAverage''"
  using assms readiness_block_new [of "summary_block c (today - int i) st" c "today - int i"]
  by (simp_all add: recovery_body_def Let_def readiness_field_def summary_block_group)

lemma recovery_prefix_Suc:
  "recovery_prefix c today (Suc n) = recovery_body c today n (recovery_prefix c today n)"
  by (simp add: recovery_prefix_def)

lemma recovery_prefix_0: "recovery_prefix c today 0 = recovery_init"
  by (simp add: recovery_prefix_def)

lemma recovery_prefix_days:
  "summary_days (calls (recovery_prefix c today n)) = map (\<lambda>i. today - int i) [0..<n]"
  by (induction n)
     (simp_all add: recovery_prefix_Suc recovery_prefix_0 recovery_body_days recovery_init_def)

text \<open>The loop returns the state after some prefix of the window.\<close>

lemma recovery_loop_result:
  "\<exists>m\<le>length xs.
      recovery_loop c today xs st = fold (recovery_body c today) (take m xs) st
    \<and> (m = length xs \<or> have_both (fold (recovery_body c today) (take m xs) st))
    \<and> (\<forall>j. 0 < j \<and> j < m \<longrightarrow> \<not> have_both (fold (recovery_body c today) (take j xs) st))"
proof (induction xs arbitrary: st)
  case Nil
  then show ?case by simp
next
  case (Cons x xs)
  let ?st' = "recovery_body c today x st"
  show ?case
  proof (cases "have_both ?st'")
    case True
    then have "recovery_loop c today (x # xs) st = fold (recovery_body c today) (take 1 (x # xs)) st
      \<and> have_both (fold (recovery_body c today) (take 1 (x # xs)) st)"
      by simp
    then show ?thesis
      by (intro exI [of _ 1]) auto
  next
    case False
    from Cons.IH [of ?st'] obtain m where m: "m \<le> length xs"
      "recovery_loop c today xs ?st' = fold (recovery_body c today) (take m xs) ?st'"
      "m = length xs \<or> have_both (fold (recovery_body c today) (take m xs) ?st')"
      "\<forall>j. 0 < j \<and> j < m \<longrightarrow> \<not> have_both (fold (recovery_body c today) (take j xs) ?st')"
      by blast
    have "\<not> have_both (fold (recovery_body c today) (take j (x # xs)) st)"
      if "0 < j" "j < Suc m" for j
    proof (cases j)
      case 0
      with that show ?thesis by simp
    next
      case (Suc j')
      show ?thesis
      proof (cases j')
        case 0
        with Suc False show ?thesis by simp
      next
        case (Suc j'')
        with \<open>j = Suc j'\<close> that m(4) show ?thesis by simp
      qed
    qed
    with m False show ?thesis
      by (intro exI [of _ "Suc m"]) auto
  qed
qed

lemma get_recovery_data_prefix:
  "\<exists>m\<le>7. get_recovery_data c today = recovery_prefix c today m
    \<and> (m = 7 \<or> have_both (recovery_prefix c today m))
    \<and> (\<forall>j. 0 < j \<and> j < m \<longrightarrow> \<not> have_both (recovery_prefix c today j))"
proof -
  let ?w = "[0..<7::nat]"
  from recovery_loop_result [of ?w c today recovery_init]
  obtain m where m: "m \<le> length ?w"
    "recovery_loop c today ?w recovery_init
       = fold (recovery_body c today) (take m ?w) recovery_init"
    "m = length ?w \<or> have_both (fold (recovery_body c today) (take m ?w) recovery_init)"
    "\<forall>j. 0 < j \<and> j < m \<longrightarrow>
         \<not> have_both (fold (recovery_body c today) (take j ?w) recovery_init)"
    by blast
  have tk: "take j ?w = [0..<j]" if "j \<le> 7" for j
    using that by (simp add: take_upt)
  from m(1) have m7: "m \<le> 7" by simp
  from m(2) m7 have a: "get_recovery_data c today = recovery_prefix c today m"
    by (simp add: get_recovery_data_def recovery_prefix_def tk)
  from m(3) m7 have b: "m = 7 \<or> have_both (recovery_prefix c today m)"
    by (simp add: recovery_prefix_def tk)
  have c: "\<not> have_both (recovery_prefix c today j)" if "0 < j" "j < m" for j
  proof -
    from that m7 have "j \<le> 7" by simp
    then have "take j ?w = [0..<j]" by (rule tk)
    moreover from m(4) that
    have "\<not> have_both (fold (recovery_body c today) (take j ?w) recovery_init)" by blast
    ultimately show ?thesis by (simp add: recovery_prefix_def)
  qed
  from m7 a b c show ?thesis by blast
qed

lemma readiness_block_raise:
  "get_morning_training_readiness c d = Inl e \<Longrightarrow> score st = PNone \<Longrightarrow>
   readiness_block c d st = st\<lparr>calls := calls st @ [TrainingReadiness d]\<rparr>"
  by (simp add: readiness_block_def readiness_try_def bind_res_def)

lemma main_recovery:
  assumes "main int_of_str (Inr c) today days = Inr r"
  shows "res_recovery r = recovery.truncate (get_recovery_data c today)"
    and "restingHR r = resting_hr (get_recovery_data c today)"
  using assms
  by (auto simp: main_def bind_res_def Let_def split: sum.splits)

lemma recovery_stop_at:
  assumes "k < 7" and "have_both (recovery_prefix c today (Suc k))"
    and "\<forall>j<k. \<not> have_both (recovery_prefix c today (Suc j))"
  shows "get_recovery_data c today = recovery_prefix c today (Suc k)"
proof -
  from get_recovery_data_prefix [of c today] obtain m where m: "m \<le> 7"
    "get_recovery_data c today = recovery_prefix c today m"
    "m = 7 \<or> have_both (recovery_prefix c today m)"
    "\<forall>j. 0 < j \<and> j < m \<longrightarrow> \<not> have_both (recovery_prefix c today j)"
    by blast
  have init: "\<not> have_both (recovery_prefix c today 0)"
    by (simp add: recovery_prefix_0 have_both_def recovery_init_def)
  have le: "m \<le> Suc k"
  proof (rule ccontr)
    assume "\<not> m \<le> Suc k"
    then have "0 < Suc k \<and> Suc k < m" by simp
    with m(4) assms(2) show False by blast
  qed
  have ge: "Suc k \<le> m"
  proof (cases "m = 7")
    case True
    with assms(1) show ?thesis by simp
  next
    case False
    with m(3) have hb: "have_both (recovery_prefix c today m)" by simp
    with init obtain m' where m': "m = Suc m'" by (cases m) auto
    show ?thesis
    proof (rule ccontr)
      assume "\<not> Suc k \<le> m"
      with m' have "m' < k" by simp
      with assms(3) hb m' show False by blast
    qed
  qed
  from le ge m(2) show ?thesis by simp
qed

lemma recovery_no_stop:
  assumes "\<forall>k<7. \<not> have_both (recovery_prefix c today (Suc k))"
  shows "get_recovery_data c today = recovery_prefix c today 7"
proof -
  from get_recovery_data_prefix [of c today] obtain m where m: "m \<le> 7"
    "get_recovery_data c today = recovery_prefix c today m"
    "m = 7 \<or> have_both (recovery_prefix c today m)"
    by blast
  have init: "\<not> have_both (recovery_prefix c today 0)"
    by (simp add: recovery_prefix_0 have_both_def recovery_init_def)
  have "m = 7"
  proof (rule ccontr)
    assume ne: "m \<noteq> 7"
    with m(3) have hb: "have_both (recovery_prefix c today m)" by simp
    with init obtain m' where m': "m = Suc m'" by (cases m) auto
    with m(1) ne have "m' < 7" by simp
    with assms hb m' show False by blast
  qed
  with m(2) show ?thesis by simp
qed

text \<open>
  Claim C6. \<^verbatim>\<open>get_recovery_data\<close> scans day offsets 0..6 whatever \<^verbatim>\<open>--days\<close> is: it
  takes no such argument, and the recovery part of the document \<^verbatim>\<open>main\<close> builds is
  its result for every value of \<^verbatim>\<open>days\<close>. The scan stops after the first offset \<open>k\<close>
  at which both the score and the resting heart rate are non-null, having visited
  exactly the offsets 0..k; if the pair is never complete it visits all seven. A
  call that raises costs only its own contribution: after a failed summary call the
  readiness block of the same day still runs, and a failed readiness call leaves the
  state as it was.
\<close>

theorem recovery_scan:
  "(\<forall>k<7. have_both (recovery_prefix c today (Suc k))
          \<and> (\<forall>j<k. \<not> have_both (recovery_prefix c today (Suc j)))
      \<longrightarrow> get_recovery_data c today = recovery_prefix c today (Suc k)
        \<and> summary_days (calls (get_recovery_data c today))
            = map (\<lambda>i. today - int i) [0..<Suc k])
   \<and> ((\<forall>k<7. \<not> have_both (recovery_prefix c today (Suc k)))
      \<longrightarrow> get_recovery_data c today = recovery_prefix c today 7
        \<and> summary_days (calls (get_recovery_data c today))
            = map (\<lambda>i. today - int i) [0..<7])
   \<and> (get_user_summary c (today - int i) = Inl e
      \<longrightarrow> recovery_body c today i st =
            readiness_block c (today - int i)
              (st\<lparr>calls := calls st @ [UserSummary (today - int i)]\<rparr>))
   \<and> (get_morning_training_readiness c (today - int i) = Inl e \<and> score st = PNone
      \<longrightarrow> readiness_block c (today - int i) st =
            st\<lparr>calls := calls st @ [TrainingReadiness (today - int i)]\<rparr>)
   \<and> (main int_of_str (Inr c) today days = Inr r
      \<longrightarrow> res_recovery r = recovery.truncate (get_recovery_data c today)
        \<and> restingHR r = resting_hr (get_recovery_data c today))"
proof (intro conjI allI impI)
  fix k
  assume "k < 7" and "have_both (recovery_prefix c today (Suc k))
          \<and> (\<forall>j<k. \<not> have_both (recovery_prefix c today (Suc j)))"
  then show eq: "get_recovery_data c today = recovery_prefix c today (Suc k)"
    by (intro recovery_stop_at) simp_all
  show "summary_days (calls (get_recovery_data c today))
            = map (\<lambda>i. today - int i) [0..<Suc k]"
    by (simp only: eq recovery_prefix_days)
next
  assume "\<forall>k<7. \<not> have_both (recovery_prefix c today (Suc k))"
  then show eq: "get_recovery_data c today = recovery_prefix c today 7"
    by (rule recovery_no_stop)
  show "summary_days (calls (get_recovery_data c today))
            = map (\<lambda>i. today - int i) [0..<7]"
    by (simp only: eq recovery_prefix_days)
next
  assume "get_user_summary c (today - int i) = Inl e"
  then show "recovery_body c today i st =
            readiness_block c (today - int i)
              (st\<lparr>calls := calls st @ [UserSummary (today - int i)]\<rparr>)"
    by (simp add: recovery_body_def Let_def summary_block_raise)
next
  assume "get_morning_training_readiness c (today - int i) = Inl e \<and> score st = PNone"
  then show "readiness_block c (today - int i) st =
            st\<lparr>calls := calls st @ [TrainingReadiness (today - int i)]\<rparr>"
    by (simp add: readiness_block_raise)
next
  assume "main int_of_str (Inr c) today days = Inr r"
  then show "res_recovery r = recovery.truncate (get_recovery_data c today)"
    and "restingHR r = resting_hr (get_recovery_data c today)"
    by (rule main_recovery)+
qed


lemma upt_seven: "[0..<7] = [0, 1, 2, 3, 4, 5, 6::nat]"
  by code_simp

theorem recovery_scan_witness:
  "summary_days (calls (get_recovery_data recov_client 100)) = [100, 99]
   \<and> summary_days (calls (get_recovery_data failing_client 100))
       = [100, 99, 98, 97, 96, 95, 94]
   \<and> calls (recovery_body recov_client 100 0 recovery_init)
       = [UserSummary 100, TrainingReadiness 100]
   \<and> calls (readiness_block failing_client 100 recovery_init) = [TrainingReadiness 100]
   \<and> (\<exists>r. main (\<lambda>s. None) (Inr recov_client) 100 3 = Inr r
          \<and> score (res_recovery r) = PInt 50 \<and> restingHR r = PInt 52)"
proof -
  have "case main (\<lambda>s. None) (Inr recov_client) 100 3 of Inl e \<Rightarrow> False | Inr r \<Rightarrow> True"
    by code_simp
  then obtain r where r: "main (\<lambda>s. None) (Inr recov_client) 100 3 = Inr r"
    by (cases "main (\<lambda>s. None) (Inr recov_client) 100 3") simp_all
  note early = recovery_scan [of recov_client 100 0 "ExternalError ''503''" recovery_init
      "\<lambda>s. None" 3 r]
  note full = recovery_scan [of failing_client 100 0 "ExternalError ''timeout''" recovery_init
      "\<lambda>s. None" 3 r]
  have stop: "have_both (recovery_prefix recov_client 100 (Suc 1))
          \<and> (\<forall>j<1. \<not> have_both (recovery_prefix recov_client 100 (Suc j)))"
  proof -
    have "have_both (recovery_prefix recov_client 100 (Suc 1))" by code_simp
    moreover have "\<not> have_both (recovery_prefix recov_client 100 (Suc 0))" by code_simp
    ultimately show ?thesis by simp
  qed
  from early have "\<forall>k<7. have_both (recovery_prefix recov_client 100 (Suc k))
          \<and> (\<forall>j<k. \<not> have_both (recovery_prefix recov_client 100 (Suc j)))
      \<longrightarrow> get_recovery_data recov_client 100 = recovery_prefix recov_client 100 (Suc k)
        \<and> summary_days (calls (get_recovery_data recov_client 100))
            = map (\<lambda>i. 100 - int i) [0..<Suc k]"
    by (elim conjE)
  then have "(1::nat) < 7 \<longrightarrow> (have_both (recovery_prefix recov_client 100 (Suc 1))
          \<and> (\<forall>j<1. \<not> have_both (recovery_prefix recov_client 100 (Suc j)))
      \<longrightarrow> get_recovery_data recov_client 100 = recovery_prefix recov_client 100 (Suc 1)
        \<and> summary_days (calls (get_recovery_data recov_client 100))
            = map (\<lambda>i. 100 - int i) [0..<Suc 1])"
    by (rule spec)
  moreover have "(1::nat) < 7" by simp
  ultimately have "have_both (recovery_prefix recov_client 100 (Suc 1))
          \<and> (\<forall>j<1. \<not> have_both (recovery_prefix recov_client 100 (Suc j)))
      \<longrightarrow> get_recovery_data recov_client 100 = recovery_prefix recov_client 100 (Suc 1)
        \<and> summary_days (calls (get_recovery_data recov_client 100))
            = map (\<lambda>i. 100 - int i) [0..<Suc 1]"
    by (rule mp)
  from this stop have "get_recovery_data recov_client 100 = recovery_prefix recov_client 100 (Suc 1)
        \<and> summary_days (calls (get_recovery_data recov_client 100))
            = map (\<lambda>i. 100 - int i) [0..<Suc 1]"
    by (rule mp)
  then have "summary_days (calls (get_recovery_data recov_client 100))
            = map (\<lambda>i. 100 - int i) [0..<Suc 1]"
    by (rule conjunct2)
  then have c1: "summary_days (calls (get_recovery_data recov_client 100)) = [100, 99]"
    by simp
  have never: "\<forall>k<7. \<not> have_both (recovery_prefix failing_client 100 (Suc k))"
  proof (intro allI impI)
    fix k :: nat
    assume "k < 7"
    then consider "k = 0" | "k = 1" | "k = 2" | "k = 3" | "k = 4" | "k = 5" | "k = 6"
      by linarith
    then show "\<not> have_both (recovery_prefix failing_client 100 (Suc k))"
      by cases (simp_all, code_simp+)
  qed
  from full have "(\<forall>k<7. \<not> have_both (recovery_prefix failing_client 100 (Suc k)))
      \<longrightarrow> get_recovery_data failing_client 100 = recovery_prefix failing_client 100 7
        \<and> summary_days (calls (get_recovery_data failing_client 100))
            = map (\<lambda>i. 100 - int i) [0..<7]"
    by (elim conjE)
  from this never have "get_recovery_data failing_client 100 = recovery_prefix failing_client 100 7
        \<and> summary_days (calls (get_recovery_data failing_client 100))
            = map (\<lambda>i. 100 - int i) [0..<7]"
    by (rule mp)
  then have "summary_days (calls (get_recovery_data failing_client 100))
            = map (\<lambda>i. 100 - int i) [0..<7]"
    by (rule conjunct2)
  then have c2: "summary_days (calls (get_recovery_data failing_client 100))
       = [100, 99, 98, 97, 96, 95, 94]"
    by (simp add: upt_seven)
  have raise1: "get_user_summary recov_client (100 - int 0) = Inl (ExternalError ''503'')"
    by (simp add: recov_client_def)
  from early have "get_user_summary recov_client (100 - int 0) = Inl (ExternalError ''503'')
      \<longrightarrow> recovery_body recov_client 100 0 recovery_init =
            readiness_block recov_client (100 - int 0)
              (recovery_init\<lparr>calls := calls recovery_init @ [UserSummary (100 - int 0)]\<rparr>)"
    by (elim conjE)
  with raise1 have "recovery_body recov_client 100 0 recovery_init =
            readiness_block recov_client (100 - int 0)
              (recovery_init\<lparr>calls := calls recovery_init @ [UserSummary (100 - int 0)]\<rparr>)"
    by (rule rev_mp)
  then have c3: "calls (recovery_body recov_client 100 0 recovery_init)
       = [UserSummary 100, TrainingReadiness 100]"
    by (simp add: readiness_block_def readiness_try_def bind_res_def recovery_init_def
          recov_client_def quiet_client_def)
  have raise2: "get_morning_training_readiness failing_client (100 - int 0)
                  = Inl (ExternalError ''timeout'') \<and> score recovery_init = PNone"
    by (simp add: failing_client_def recovery_init_def)
  from full have "get_morning_training_readiness failing_client (100 - int 0)
                  = Inl (ExternalError ''timeout'') \<and> score recovery_init = PNone
      \<longrightarrow> readiness_block failing_client (100 - int 0) recovery_init =
            recovery_init\<lparr>calls := calls recovery_init @ [TrainingReadiness (100 - int 0)]\<rparr>"
    by (elim conjE)
  with raise2 have "readiness_block failing_client (100 - int 0) recovery_init =
            recovery_init\<lparr>calls := calls recovery_init @ [TrainingReadiness (100 - int 0)]\<rparr>"
    by (rule rev_mp)
  then have c4: "calls (readiness_block failing_client 100 recovery_init)
                   = [TrainingReadiness 100]"
    by (simp add: recovery_init_def)
  from early have "main (\<lambda>s. None) (Inr recov_client) 100 3 = Inr r
      \<longrightarrow> res_recovery r = recovery.truncate (get_recovery_data recov_client 100)
        \<and> restingHR r = resting_hr (get_recovery_data recov_client 100)"
    by (elim conjE)
  with r have m: "res_recovery r = recovery.truncate (get_recovery_data recov_client 100)"
    "restingHR r = resting_hr (get_recovery_data recov_client 100)"
    by simp_all
  have "score (recovery.truncate (get_recovery_data recov_client 100)) = PInt 50"
    by code_simp
  moreover have "resting_hr (get_recovery_data recov_client 100) = PInt 52"
    by code_simp
  ultimately have c5: "\<exists>r. main (\<lambda>s. None) (Inr recov_client) 100 3 = Inr r
          \<and> score (res_recovery r) = PInt 50 \<and> restingHR r = PInt 52"
    using r m by auto
  from c1 c2 c3 c4 c5 show ?thesis by blast
qed

lemma recovery_body_readiness_calls:
  "TrainingReadiness d \<in> set (calls (recovery_body c today i st)) \<Longrightarrow>
   TrainingReadiness d \<in> set (calls st) \<or> d = today - int i"
  by (auto simp: recovery_body_def Let_def readiness_block_def readiness_try_def
                 bind_res_def summary_block_calls
           split: sum.splits if_splits)

lemma score_none_before:
  assumes "\<forall>j<k. readiness_field c today j ''score'' = PNone" and "n \<le> k"
  shows "score (recovery_prefix c today n) = PNone"
  using assms(2)
proof (induction n)
  case 0
  show ?case by (simp add: recovery_prefix_0 recovery_init_def)
next
  case (Suc n)
  then have "score (recovery_prefix c today n) = PNone" and "n < k" by simp_all
  with assms(1) show ?case
    by (simp add: recovery_prefix_Suc recovery_body_group_new(1))
qed

lemma readiness_calls_before:
  assumes "n \<le> Suc k" and "TrainingReadiness d \<in> set (calls (recovery_prefix c today n))"
  shows "today - int k \<le> d"
  using assms
proof (induction n)
  case 0
  then show ?case by (simp add: recovery_prefix_0 recovery_init_def)
next
  case (Suc n)
  from Suc.prems(2) have "TrainingReadiness d \<in> set (calls (recovery_prefix c today n))
      \<or> d = today - int n"
    unfolding recovery_prefix_Suc by (rule recovery_body_readiness_calls)
  with Suc show ?case by auto
qed

lemma group_after:
  assumes "score (recovery_prefix c today (Suc k)) \<noteq> PNone" and "k < n"
  shows "score (recovery_prefix c today n) = score (recovery_prefix c today (Suc k))
       \<and> level (recovery_prefix c today n) = level (recovery_prefix c today (Suc k))
       \<and> sleepScore (recovery_prefix c today n) = sleepScore (recovery_prefix c today (Suc k))
       \<and> hrvWeeklyAverage (recovery_prefix c today n)
           = hrvWeeklyAverage (recovery_prefix c today (Suc k))
       \<and> (\<forall>d. TrainingReadiness d \<in> set (calls (recovery_prefix c today n))
              \<longrightarrow> TrainingReadiness d \<in> set (calls (recovery_prefix c today (Suc k))))"
  using assms(2)
proof (induction n)
  case 0
  then show ?case by simp
next
  case (Suc n)
  show ?case
  proof (cases "n = k")
    case True
    then show ?thesis by simp
  next
    case False
    with Suc have IH: "score (recovery_prefix c today n) = score (recovery_prefix c today (Suc k))"
      "level (recovery_prefix c today n) = level (recovery_prefix c today (Suc k))"
      "sleepScore (recovery_prefix c today n) = sleepScore (recovery_prefix c today (Suc k))"
      "hrvWeeklyAverage (recovery_prefix c today n)
           = hrvWeeklyAverage (recovery_prefix c today (Suc k))"
      "\<forall>d. TrainingReadiness d \<in> set (calls (recovery_prefix c today n))
              \<longrightarrow> TrainingReadiness d \<in> set (calls (recovery_prefix c today (Suc k)))"
      by simp_all
    from IH(1) assms(1) have ne: "score (recovery_prefix c today n) \<noteq> PNone" by simp
    from recovery_body_group_kept [OF ne, of c today n] IH show ?thesis
      by (simp add: recovery_prefix_Suc)
  qed
qed

section \<open>The readiness group\<close>

text \<open>
  Claim C7, as amended. Let \<open>k\<close> be the first offset of the window whose readiness
  response yields a non-null score. Then score, level, sleepScore and
  hrvWeeklyAverage are all taken from the response of day \<open>k\<close>, as one group (each of
  the other three is that response's value, null when the response lacks it), and no
  readiness call is made for a later (older) day.
\<close>

theorem readiness_group:
  assumes "k < 7"
    and "readiness_field c today k ''score'' \<noteq> PNone"
    and "\<forall>j<k. readiness_field c today j ''score'' = PNone"
  shows "score (get_recovery_data c today) = readiness_field c today k ''score''
       \<and> level (get_recovery_data c today) = readiness_field c today k ''level''
       \<and> sleepScore (get_recovery_data c today) = readiness_field c today k ''sleepScore''
       \<and> hrvWeeklyAverage (get_recovery_data c today)
           = readiness_field c today k ''hrvWeeklyAverage''
       \<and> (\<forall>d. TrainingReadiness d \<in> set (calls (get_recovery_data c today))
              \<longrightarrow> today - int k \<le> d)"
proof -
  let ?p = "recovery_prefix c today"
  have before: "score (?p n) = PNone" if "n \<le> k" for n
    using assms(3) that by (rule score_none_before)
  then have k0: "score (?p k) = PNone" by simp
  from recovery_body_group_new [OF k0, of c today k] assms(2)
  have at: "score (?p (Suc k)) = readiness_field c today k ''score''"
    "level (?p (Suc k)) = readiness_field c today k ''level''"
    "sleepScore (?p (Suc k)) = readiness_field c today k ''sleepScore''"
    "hrvWeeklyAverage (?p (Suc k)) = readiness_field c today k ''hrvWeeklyAverage''"
    by (simp_all add: recovery_prefix_Suc)
  from at(1) assms(2) have ne: "score (?p (Suc k)) \<noteq> PNone" by simp
  from get_recovery_data_prefix [of c today] obtain m where m: "m \<le> 7"
    "get_recovery_data c today = ?p m" "m = 7 \<or> have_both (?p m)"
    by blast
  have km: "k < m"
  proof (cases "m = 7")
    case True
    with assms(1) show ?thesis by simp
  next
    case False
    with m(3) have "score (?p m) \<noteq> PNone" by (simp add: have_both_def)
    with before [of m] show ?thesis by (cases "m \<le> k") simp_all
  qed
  from group_after [OF ne km] at m(2)
  have fields: "score (get_recovery_data c today) = readiness_field c today k ''score''"
    "level (get_recovery_data c today) = readiness_field c today k ''level''"
    "sleepScore (get_recovery_data c today) = readiness_field c today k ''sleepScore''"
    "hrvWeeklyAverage (get_recovery_data c today)
           = readiness_field c today k ''hrvWeeklyAverage''"
    by simp_all
  have "today - int k \<le> d"
    if "TrainingReadiness d \<in> set (calls (get_recovery_data c today))" for d
  proof -
    from group_after [OF ne km] that m(2)
    have "TrainingReadiness d \<in> set (calls (?p (Suc k)))" by simp
    with readiness_calls_before [of "Suc k" k d c today] show ?thesis by simp
  qed
  with fields show ?thesis by blast
qed

theorem readiness_group_witness:
  "score (get_recovery_data recov_client 100) = PInt 50
   \<and> level (get_recovery_data recov_client 100) = PStr ''LOW''
   \<and> sleepScore (get_recovery_data recov_client 100) = PNone
   \<and> TrainingReadiness 98 \<notin> set (calls (get_recovery_data recov_client 100))"
proof -
  have h1: "(1::nat) < 7" by simp
  have h2: "readiness_field recov_client 100 1 ''score'' \<noteq> PNone"
    by (simp add: readiness_field_def recov_client_def)
  have h3: "\<forall>j<1. readiness_field recov_client 100 j ''score'' = PNone"
    by (simp add: readiness_field_def recov_client_def)
  from readiness_group [OF h1 h2 h3] show ?thesis
    by (auto simp: readiness_field_def recov_client_def)
qed

text \<open>
  Claim C7 as stated fails: with a level but no score on day 0, and a score and
  another level on day 1, the level reported is that of day 1, not the first non-null
  level found in the scan.
\<close>

theorem readiness_first_non_null_counterexample:
  "level (get_recovery_data recov_client 100) \<noteq> first_non_null recov_client 100 ''level''"
  by code_simp

section \<open>Body battery\<close>

text \<open>
  Claim C8, as amended. The field bodyBattery is assigned at most once: after any
  number of scanned days it is the \<^verbatim>\<open>bodyBatteryMostRecentValue\<close> of the first day
  (today first) whose summary has a non-null one, and null before that day is
  reached; a later day never overwrites it. The result of \<^verbatim>\<open>get_recovery_data\<close> is
  the state after some number of scanned days.
\<close>

theorem body_battery_first:
  assumes "summary_field c today k ''bodyBatteryMostRecentValue'' \<noteq> PNone"
    and "\<forall>j<k. summary_field c today j ''bodyBatteryMostRecentValue'' = PNone"
  shows "bodyBattery (recovery_prefix c today n) =
           (if k < n then summary_field c today k ''bodyBatteryMostRecentValue'' else PNone)
       \<and> (\<exists>m\<le>7. get_recovery_data c today = recovery_prefix c today m)"
proof
  show "bodyBattery (recovery_prefix c today n) =
           (if k < n then summary_field c today k ''bodyBatteryMostRecentValue'' else PNone)"
  proof (induction n)
    case 0
    show ?case by (simp add: recovery_prefix_0 recovery_init_def)
  next
    case (Suc n)
    consider "n < k" | "n = k" | "k < n" by linarith
    then show ?case
    proof cases
      case 1
      with Suc assms(2) show ?thesis
        by (simp add: recovery_prefix_Suc recovery_body_bb_new)
    next
      case 2
      with Suc show ?thesis
        by (simp add: recovery_prefix_Suc recovery_body_bb_new)
    next
      case 3
      with Suc assms(1) show ?thesis
        by (simp add: recovery_prefix_Suc recovery_body_bb_kept)
    qed
  qed
  from get_recovery_data_prefix [of c today]
  show "\<exists>m\<le>7. get_recovery_data c today = recovery_prefix c today m" by blast
qed

theorem body_battery_first_witness:
  "bodyBattery (recovery_prefix recov_client 100 3) = PInt 80
   \<and> (\<exists>m\<le>7. get_recovery_data recov_client 100 = recovery_prefix recov_client 100 m)"
proof -
  have h1: "summary_field recov_client 100 1 ''bodyBatteryMostRecentValue'' \<noteq> PNone"
    by (simp add: summary_field_def recov_client_def)
  have h2: "\<forall>j<1. summary_field recov_client 100 j ''bodyBatteryMostRecentValue'' = PNone"
    by (simp add: summary_field_def recov_client_def)
  from body_battery_first [OF h1 h2, of 3] show ?thesis
    by (simp add: summary_field_def recov_client_def)
qed

text \<open>
  Claim C8 as stated fails: there is no client, day and state for which one pass of
  the loop body changes a body battery that is already non-null.
\<close>

theorem body_battery_overwrite_counterexample:
  "\<not> (\<exists>c today i st. bodyBattery st \<noteq> PNone
         \<and> bodyBattery (recovery_body c today i st) \<noteq> bodyBattery st)"
  using recovery_body_bb_kept by blast

section \<open>Kokoro server: validation, speed and logging\<close>

lemma read_fields_dict:
  "read_fields eng \<lparr>path = p, body_json = Inr (PDict kvs)\<rparr> =
     (case py_float (float_of_str eng) (field_or kvs ''speed'' (PFloat 1)) of
        Inl e \<Rightarrow> Inl e
      | Inr x \<Rightarrow> Inr (field_or kvs ''input'' (PStr []), field_or kvs ''voice'' (PStr ''af_heart''), x))"
  by (simp add: read_fields_def bind_res_def field_or_def split: sum.splits)

text \<open>
  Claim C4, as amended. For every POST to \<^verbatim>\<open>/v1/audio/speech\<close> whose body parses as a
  JSON object, whose \<^verbatim>\<open>speed\<close> field is absent or a value that \<^verbatim>\<open>float()\<close> converts, and
  whose \<^verbatim>\<open>input\<close> field is missing or empty (falsy), the server responds 400 with
  exactly the JSON body \<^verbatim>\<open>{"error": "Missing 'input' field"}\<close>, and makes no call to
  the engine.
\<close>

theorem missing_input_400:
  assumes "path req = ''/v1/audio/speech''"
    and "body_json req = Inr (PDict kvs)"
    and "py_float (float_of_str eng) (field_or kvs ''speed'' (PFloat 1)) = Inr x"
    and "\<not> truthy (field_or kvs ''input'' (PStr []))"
  shows "do_POST eng req =
           \<lparr>response = \<lparr>status_code = 400, content_type = ''application/json'',
                         payload = JsonBody (PDict [(''error'', PStr ''Missing 'input' field'')])\<rparr>,
            engine_calls = []\<rparr>"
proof -
  from assms(1,2) have req: "req = \<lparr>path = ''/v1/audio/speech'', body_json = Inr (PDict kvs)\<rparr>"
    by (cases req) simp
  show ?thesis
    unfolding req do_POST_def speech_try_def read_fields_dict
    using assms(3,4) by (simp add: json_response_def error_body_def)
qed

theorem missing_input_400_witness:
  "status_code (response (do_POST demo_engine (speech_request [(''voice'', PStr ''af_sky'')]))) = 400
   \<and> payload (response (do_POST demo_engine (speech_request [(''input'', PStr []), (''speed'', PInt 3)])))
       = JsonBody (PDict [(''error'', PStr ''Missing 'input' field'')])
   \<and> engine_calls (do_POST demo_engine (speech_request [(''input'', PStr []), (''speed'', PInt 3)])) = []"
proof -
  have a: "do_POST demo_engine (speech_request [(''voice'', PStr ''af_sky'')]) =
           \<lparr>response = \<lparr>status_code = 400, content_type = ''application/json'',
                         payload = JsonBody (PDict [(''error'', PStr ''Missing 'input' field'')])\<rparr>,
            engine_calls = []\<rparr>"
    by (rule missing_input_400 [where kvs = "[(''voice'', PStr ''af_sky'')]" and x = 1])
       (simp_all add: speech_request_def field_or_def demo_engine_def)
  have b: "do_POST demo_engine (speech_request [(''input'', PStr []), (''speed'', PInt 3)]) =
           \<lparr>response = \<lparr>status_code = 400, content_type = ''application/json'',
                         payload = JsonBody (PDict [(''error'', PStr ''Missing 'input' field'')])\<rparr>,
            engine_calls = []\<rparr>"
    by (rule missing_input_400 [where kvs = "[(''input'', PStr []), (''speed'', PInt 3)]" and x = 3])
       (simp_all add: speech_request_def field_or_def demo_engine_def int_to_float_def dbl_fits_def)
  from a b show ?thesis by simp
qed

text \<open>
  Claim C4 as stated fails: the body \<^verbatim>\<open>{"speed": null}\<close> parses as JSON and has no
  \<^verbatim>\<open>input\<close>, but \<^verbatim>\<open>float(None)\<close> raises before the test of the input, and the
  response is 500.
\<close>

theorem missing_input_400_counterexample:
  "status_code (response (do_POST demo_engine (speech_request [(''speed'', PNone)]))) = 500
   \<and> map_of [(''speed'', PNone)] ''input'' = None"
  by (simp add: do_POST_def speech_try_def read_fields_def bind_res_def speech_request_def
        json_response_def)






text \<open>
  Claim C9 at its failing input. The request with body \<^verbatim>\<open>{"speed": null}\<close> is answered
  with status 500; the log call made for that response has the request line as its
  first argument, which does not contain \<^verbatim>\<open>500\<close>, so nothing is logged although the
  rendered line contains \<^verbatim>\<open>500\<close>. A request for the path \<^verbatim>\<open>/500\<close> answered with 200 is
  logged.
\<close>

theorem error_responses_not_logged:
  "status_code (response (do_POST demo_engine (speech_request [(''speed'', PNone)]))) = 500
   \<and> log_request ''POST /v1/audio/speech HTTP/1.1'' 500 = None
   \<and> is_substring ''500''
       (percent_format [CHR 0x22, CHR ''%'', CHR ''s'', CHR 0x22, CHR '' '', CHR ''%'', CHR ''s'',
                        CHR '' '', CHR ''%'', CHR ''s'']
          [LStr ''POST /v1/audio/speech HTTP/1.1'', LStr ''500'', LStr ''-''])
   \<and> log_request ''GET /500 HTTP/1.1'' 200 \<noteq> None"
  by code_simp

section \<open>Activities: pace and optional fields\<close>













lemma bind_res_Inr:
  assumes "bind_res r f = Inr x"
  obtains y where "r = Inr y" and "f y = Inr x"
  using assms by (cases r) (simp_all add: bind_res_def)

lemma format_activity_optional:
  assumes "format_activity int_of_str (PDict kvs) = Inr r"
  shows "int_if int_of_str (field_or kvs ''averageHR'' (PInt 0)) = Inr (avg_hr r)"
    and "int_if int_of_str (field_or kvs ''maxHR'' (PInt 0)) = Inr (max_hr r)"
    and "int_if int_of_str (field_or kvs ''calories'' (PInt 0)) = Inr (calories r)"
  using assms unfolding format_activity_def Let_def
  by (elim bind_res_Inr; simp add: field_or_def; fastforce)+

lemma int_if_cases:
  assumes "int_if int_of_str (field_or kvs k (PInt 0)) = Inr a"
  shows "(a = None) = absent_or_falsy kvs k"
    and "\<forall>v. map_of kvs k = Some v \<and> truthy v \<longrightarrow>
           (\<exists>n. a = Some n \<and> py_int int_of_str v = Inr n)"
  using assms
  by (auto simp: int_if_def field_or_def absent_or_falsy_def bind_res_def
           split: option.splits if_splits sum.splits)

lemma round_if_cases:
  assumes "round_if (field_or kvs k PNone) = Inr a"
  shows "(a = None) = absent_or_falsy kvs k"
    and "\<forall>v. map_of kvs k = Some v \<and> truthy v \<longrightarrow>
           (\<exists>n. a = Some n \<and> py_round v = Inr n)"
  using assms
  by (auto simp: round_if_def field_or_def absent_or_falsy_def bind_res_def
           split: option.splits if_splits sum.splits)

lemma hrv_record_optional:
  assumes "hrv_record d (PDict hs) = Inr h"
  shows "round_if (field_or hs ''weeklyAvg'' PNone) = Inr (weeklyAvg h)"
    and "round_if (field_or hs ''lastNightAvg'' PNone) = Inr (lastNightAvg h)"
    and "hrv_baseline_of (field_or hs ''baseline'' (PDict [])) = Inr (baseline h)"
  using assms unfolding hrv_record_def
  by (elim bind_res_Inr; simp add: field_or_def; fastforce)+

lemma hrv_baseline_optional:
  assumes "hrv_baseline_of (PDict bs) = Inr (Some b)"
  shows "round_if (field_or bs ''balancedLow'' PNone) = Inr (balancedLow b)"
    and "round_if (field_or bs ''balancedUpper'' PNone) = Inr (balancedUpper b)"
  using assms unfolding hrv_baseline_of_def
  by (auto simp: field_or_def split: if_splits elim!: bind_res_Inr)

text \<open>
  Claim C3, as amended. In a formatted activity, each of avg_hr, max_hr and calories
  is null exactly when its datum is absent from the provider's record or falsy, so a
  present value of 0 is reported as null; a truthy value is carried as \<^verbatim>\<open>int(value)\<close>.
  In an HRV summary the same holds of weeklyAvg and lastNightAvg, and of balancedLow
  and balancedUpper inside a present baseline, with \<^verbatim>\<open>round(value)\<close>.
\<close>

theorem optional_fields:
  "(format_activity int_of_str (PDict kvs) = Inr r \<longrightarrow>
       (avg_hr r = None) = absent_or_falsy kvs ''averageHR''
     \<and> (max_hr r = None) = absent_or_falsy kvs ''maxHR''
     \<and> (calories r = None) = absent_or_falsy kvs ''calories''
     \<and> (\<forall>v. map_of kvs ''averageHR'' = Some v \<and> truthy v \<longrightarrow>
           (\<exists>n. avg_hr r = Some n \<and> py_int int_of_str v = Inr n))
     \<and> (\<forall>v. map_of kvs ''maxHR'' = Some v \<and> truthy v \<longrightarrow>
           (\<exists>n. max_hr r = Some n \<and> py_int int_of_str v = Inr n))
     \<and> (\<forall>v. map_of kvs ''calories'' = Some v \<and> truthy v \<longrightarrow>
           (\<exists>n. calories r = Some n \<and> py_int int_of_str v = Inr n)))
   \<and> (hrv_record d (PDict hs) = Inr h \<longrightarrow>
       (weeklyAvg h = None) = absent_or_falsy hs ''weeklyAvg''
     \<and> (lastNightAvg h = None) = absent_or_falsy hs ''lastNightAvg''
     \<and> (\<forall>v. map_of hs ''weeklyAvg'' = Some v \<and> truthy v \<longrightarrow>
           (\<exists>n. weeklyAvg h = Some n \<and> py_round v = Inr n))
     \<and> (\<forall>v. map_of hs ''lastNightAvg'' = Some v \<and> truthy v \<longrightarrow>
           (\<exists>n. lastNightAvg h = Some n \<and> py_round v = Inr n))
     \<and> (\<forall>bs b. map_of hs ''baseline'' = Some (PDict bs) \<and> baseline h = Some b \<longrightarrow>
           (balancedLow b = None) = absent_or_falsy bs ''balancedLow''
         \<and> (balancedUpper b = None) = absent_or_falsy bs ''balancedUpper''
         \<and> (\<forall>v. map_of bs ''balancedLow'' = Some v \<and> truthy v \<longrightarrow>
               (\<exists>n. balancedLow b = Some n \<and> py_round v = Inr n))
         \<and> (\<forall>v. map_of bs ''balancedUpper'' = Some v \<and> truthy v \<longrightarrow>
               (\<exists>n. balancedUpper b = Some n \<and> py_round v = Inr n))))"
proof (intro conjI impI)
  assume fa: "format_activity int_of_str (PDict kvs) = Inr r"
  note o = format_activity_optional [OF fa]
  from int_if_cases [OF o(1)]
  show "(avg_hr r = None) = absent_or_falsy kvs ''averageHR''"
    and "\<forall>v. map_of kvs ''averageHR'' = Some v \<and> truthy v \<longrightarrow>
           (\<exists>n. avg_hr r = Some n \<and> py_int int_of_str v = Inr n)"
    by blast+
  from int_if_cases [OF o(2)]
  show "(max_hr r = None) = absent_or_falsy kvs ''maxHR''"
    and "\<forall>v. map_of kvs ''maxHR'' = Some v \<and> truthy v \<longrightarrow>
           (\<exists>n. max_hr r = Some n \<and> py_int int_of_str v = Inr n)"
    by blast+
  from int_if_cases [OF o(3)]
  show "(calories r = None) = absent_or_falsy kvs ''calories''"
    and "\<forall>v. map_of kvs ''calories'' = Some v \<and> truthy v \<longrightarrow>
           (\<exists>n. calories r = Some n \<and> py_int int_of_str v = Inr n)"
    by blast+
next
  assume hr: "hrv_record d (PDict hs) = Inr h"
  note o = hrv_record_optional [OF hr]
  from round_if_cases [OF o(1)]
  show "(weeklyAvg h = None) = absent_or_falsy hs ''weeklyAvg''"
    and "\<forall>v. map_of hs ''weeklyAvg'' = Some v \<and> truthy v \<longrightarrow>
           (\<exists>n. weeklyAvg h = Some n \<and> py_round v = Inr n)"
    by blast+
  from round_if_cases [OF o(2)]
  show "(lastNightAvg h = None) = absent_or_falsy hs ''lastNightAvg''"
    and "\<forall>v. map_of hs ''lastNightAvg'' = Some v \<and> truthy v \<longrightarrow>
           (\<exists>n. lastNightAvg h = Some n \<and> py_round v = Inr n)"
    by blast+
  show "\<forall>bs b. map_of hs ''baseline'' = Some (PDict bs) \<and> baseline h = Some b \<longrightarrow>
           (balancedLow b = None) = absent_or_falsy bs ''balancedLow''
         \<and> (balancedUpper b = None) = absent_or_falsy bs ''balancedUpper''
         \<and> (\<forall>v. map_of bs ''balancedLow'' = Some v \<and> truthy v \<longrightarrow>
               (\<exists>n. balancedLow b = Some n \<and> py_round v = Inr n))
         \<and> (\<forall>v. map_of bs ''balancedUpper'' = Some v \<and> truthy v \<longrightarrow>
               (\<exists>n. balancedUpper b = Some n \<and> py_round v = Inr n))"
  proof (intro allI impI)
    fix bs b
    assume "map_of hs ''baseline'' = Some (PDict bs) \<and> baseline h = Some b"
    with o(3) have "hrv_baseline_of (PDict bs) = Inr (Some b)"
      by (simp add: field_or_def)
    note ob = hrv_baseline_optional [OF this]
    from round_if_cases [OF ob(1)] round_if_cases [OF ob(2)]
    show "(balancedLow b = None) = absent_or_falsy bs ''balancedLow''
         \<and> (balancedUpper b = None) = absent_or_falsy bs ''balancedUpper''
         \<and> (\<forall>v. map_of bs ''balancedLow'' = Some v \<and> truthy v \<longrightarrow>
               (\<exists>n. balancedLow b = Some n \<and> py_round v = Inr n))
         \<and> (\<forall>v. map_of bs ''balancedUpper'' = Some v \<and> truthy v \<longrightarrow>
               (\<exists>n. balancedUpper b = Some n \<and> py_round v = Inr n))"
      by blast
  qed
qed

theorem optional_fields_witness:
  "(case format_activity (\<lambda>s. None) run_act of
      Inl e \<Rightarrow> False
    | Inr r \<Rightarrow> avg_hr r = None \<and> max_hr r = Some 171 \<and> calories r = Some 410)
   \<and> (case hrv_record 96 (PDict hrv_fields) of
        Inl e \<Rightarrow> False
      | Inr h \<Rightarrow> weeklyAvg h = Some 45 \<and> lastNightAvg h = Some 42
          \<and> (case baseline h of
                None \<Rightarrow> False
              | Some b \<Rightarrow> balancedLow b = Some 40 \<and> balancedUpper b = None))"
proof -
  have "case format_activity (\<lambda>s. None) run_act of Inl e \<Rightarrow> False | Inr r \<Rightarrow> True"
    by code_simp
  then obtain r where r: "format_activity (\<lambda>s. None) (PDict run_fields) = Inr r"
    by (cases "format_activity (\<lambda>s. None) run_act") (simp_all add: run_act_def)
  have "case hrv_record 96 (PDict hrv_fields) of
          Inl e \<Rightarrow> False
        | Inr h \<Rightarrow> (case baseline h of None \<Rightarrow> False | Some b \<Rightarrow> True)"
    by code_simp
  then obtain h b where h: "hrv_record 96 (PDict hrv_fields) = Inr h" and b: "baseline h = Some b"
    by (cases "hrv_record 96 (PDict hrv_fields)") (auto split: option.splits)
  note T = optional_fields [of "\<lambda>s. None" run_fields r 96 hrv_fields h]
  from T r have A: "(avg_hr r = None) = absent_or_falsy run_fields ''averageHR''"
    and M: "\<forall>v. map_of run_fields ''maxHR'' = Some v \<and> truthy v \<longrightarrow>
           (\<exists>n. max_hr r = Some n \<and> py_int (\<lambda>s. None) v = Inr n)"
    and C: "\<forall>v. map_of run_fields ''calories'' = Some v \<and> truthy v \<longrightarrow>
           (\<exists>n. calories r = Some n \<and> py_int (\<lambda>s. None) v = Inr n)"
    by blast+
  from T h have W: "\<forall>v. map_of hrv_fields ''weeklyAvg'' = Some v \<and> truthy v \<longrightarrow>
           (\<exists>n. weeklyAvg h = Some n \<and> py_round v = Inr n)"
    and L: "\<forall>v. map_of hrv_fields ''lastNightAvg'' = Some v \<and> truthy v \<longrightarrow>
           (\<exists>n. lastNightAvg h = Some n \<and> py_round v = Inr n)"
    and B: "\<forall>bs b. map_of hrv_fields ''baseline'' = Some (PDict bs) \<and> baseline h = Some b \<longrightarrow>
           (balancedLow b = None) = absent_or_falsy bs ''balancedLow''
         \<and> (balancedUpper b = None) = absent_or_falsy bs ''balancedUpper''
         \<and> (\<forall>v. map_of bs ''balancedLow'' = Some v \<and> truthy v \<longrightarrow>
               (\<exists>n. balancedLow b = Some n \<and> py_round v = Inr n))
         \<and> (\<forall>v. map_of bs ''balancedUpper'' = Some v \<and> truthy v \<longrightarrow>
               (\<exists>n. balancedUpper b = Some n \<and> py_round v = Inr n))"
    by blast+
  from A have a: "avg_hr r = None"
    by (simp add: absent_or_falsy_def run_fields_def)
  have fl: "\<lfloor>343 / 2 :: rat\<rfloor> = 171" by (simp add: floor_eq_iff)
  from M [rule_format, of "PFloat (1715 / 10)"] have m: "max_hr r = Some 171"
    by (simp add: run_fields_def trunc_def fl)
  from C [rule_format, of "PInt 410"] have c: "calories r = Some 410"
    by (simp add: run_fields_def)
  from W [rule_format, of "PInt 45"] have w: "weeklyAvg h = Some 45"
    by (simp add: hrv_fields_def)
  have fl2: "\<lfloor>85 / 2 :: rat\<rfloor> = 42" by (simp add: floor_eq_iff)
  from L [rule_format, of "PFloat (85 / 2)"] have l: "lastNightAvg h = Some 42"
    by (simp add: hrv_fields_def round_half_even_def Let_def fl2)
  from B [rule_format, of "[(''balancedLow'', PInt 40), (''balancedUpper'', PInt 0)]" b] b
  have bl: "(balancedUpper b = None) =
              absent_or_falsy [(''balancedLow'', PInt 40), (''balancedUpper'', PInt 0)] ''balancedUpper''"
    and bv: "\<forall>v. map_of [(''balancedLow'', PInt 40), (''balancedUpper'', PInt 0)] ''balancedLow'' = Some v
               \<and> truthy v \<longrightarrow> (\<exists>n. balancedLow b = Some n \<and> py_round v = Inr n)"
    by (simp_all add: hrv_fields_def)
  from bl have u: "balancedUpper b = None" by (simp add: absent_or_falsy_def)
  from bv [rule_format, of "PInt 40"] have lo: "balancedLow b = Some 40" by simp
  from r a m c h w l b u lo show ?thesis by (simp add: run_act_def)
qed

text \<open>
  Claim C3 as stated fails: an average heart rate that is present with the value 0
  is formatted as null, as a missing one is.
\<close>

theorem zero_is_null_counterexample:
  "map_of run_fields ''averageHR'' = Some (PInt 0)
   \<and> (case format_activity (\<lambda>s. None) run_act of
        Inl e \<Rightarrow> False
      | Inr r \<Rightarrow> avg_hr r = None)"
  by code_simp

section \<open>The HRV window of the main pipeline\<close>

text \<open>
  Claim C1 at its failing input. With \<^verbatim>\<open>--days 3\<close> and HRV data only 4 days back,
  \<^verbatim>\<open>get_hrv_data\<close> called with the window of 3 days finds nothing, as the claim
  says; but \<^verbatim>\<open>main\<close> calls it without \<^verbatim>\<open>args.days\<close>, so the document it builds
  for \<^verbatim>\<open>period_days = 3\<close> holds the HRV record dated today minus 4 days.
\<close>

theorem main_hrv_window:
  "get_hrv_data hrv_client 100 3 = None
   \<and> (case main (\<lambda>s. None) (Inr hrv_client) 100 3 of
        Inl e \<Rightarrow> False
      | Inr r \<Rightarrow> period_days r = 3 \<and> map_option hrv_date (res_hrv r) = Some 96)"
  by code_simp

end
